theory Spec2Isabelle
  imports Main "HOL-Library.Word" "HOL-Library.Signed_Division"
begin

unbundle bit_operations_syntax

section \<open>Buffer layout and encoding selection of the gralloc allocator\<close>

text \<open>
  A shallow embedding of \<^verbatim>\<open>src/core/buffer_allocation.cpp\<close> (encoding selection,
  plane geometry, size accumulation, multi-layer replication) and of
  \<^verbatim>\<open>drm_fourcc_from_handle\<close> in \<^verbatim>\<open>drm_utils.cpp\<close>.

  Arithmetic is carried out on \<open>int\<close> with the conversions of the C types written out:
  \<open>u32\<close> for \<^verbatim>\<open>uint32_t\<close>, \<open>s32\<close> for \<^verbatim>\<open>int\<close>, \<open>u64\<close> for \<^verbatim>\<open>size_t\<close> (a 64-bit
  build). Bit masks (\<^verbatim>\<open>format_ext\<close>, \<^verbatim>\<open>usage\<close>) are 64-bit words.
\<close>

subsection \<open>Machine arithmetic\<close>

definition u32 :: "int \<Rightarrow> int" where
  "u32 x = x mod 2 ^ 32"

definition s32 :: "int \<Rightarrow> int" where
  "s32 x = (x + 2 ^ 31) mod 2 ^ 32 - 2 ^ 31"

definition u64 :: "int \<Rightarrow> int" where
  "u64 x = x mod 2 ^ 64"

text \<open>
  Modelled from the spec: the macro \<^verbatim>\<open>GRALLOC_ALIGN(value, base)\<close> is declared in a helper
  header that is not part of the sources at hand; the spec has it round \<open>value\<close> up to
  a multiple of \<open>base\<close>, which the macro does as
  \<^verbatim>\<open>((value + base - 1) / base) * base\<close> in the common C type of its operands. The
  conversion to that type is the first argument. Division is C's (truncating); a zero
  \<open>base\<close> is undefined behaviour in C and yields 0 here.
\<close>

definition GRALLOC_ALIGN :: "(int \<Rightarrow> int) \<Rightarrow> int \<Rightarrow> int \<Rightarrow> int" where
  "GRALLOC_ALIGN conv v base =
     conv (conv (conv (conv v + conv base) - 1) sdiv conv base * conv base)"

text \<open>The three overloads of \<^verbatim>\<open>static int max(...)\<close>.\<close>

definition max2 :: "int \<Rightarrow> int \<Rightarrow> int" where
  "max2 a b = (if a > b then a else b)"

definition max3 :: "int \<Rightarrow> int \<Rightarrow> int \<Rightarrow> int" where
  "max3 a b c = (if c > max2 a b then c else max2 a b)"

definition max4 :: "int \<Rightarrow> int \<Rightarrow> int \<Rightarrow> int \<Rightarrow> int" where
  "max4 a b c d = (if d > max3 a b c then d else max3 a b c)"

subsection \<open>Data model\<close>

datatype AllocBaseType =
  UNCOMPRESSED | AFBC | AFBC_WIDEBLK | AFBC_EXTRAWIDEBLK | AFRC | BLOCK_LINEAR

record rect_t =
  width :: int
  height :: int

text \<open>
  \<^verbatim>\<open>format_info_t\<close>, one row of the format table \<^verbatim>\<open>formats[]\<close>. The declaration
  (\<^verbatim>\<open>format_info.h\<close>) is not part of the sources at hand; the record has the fields the
  code reads. Per-plane arrays are lists indexed by plane. The capability flags
  \<^verbatim>\<open>afbc\<close>, \<^verbatim>\<open>afrc\<close>, \<^verbatim>\<open>linear\<close>, \<^verbatim>\<open>block_linear\<close> carry the prefix \<open>fmt_\<close>.
\<close>

record format_info_t =
  format_id :: int
  npln :: nat
  ncmp :: "int list"
  bpp_afbc :: "int list"
  bpp :: "int list"
  hsub :: int
  vsub :: int
  align_w :: int
  align_h :: int
  align_w_cpu :: int
  tile_size :: int
  is_yuv :: bool
  fmt_afbc :: bool
  fmt_afrc :: bool
  fmt_linear :: bool
  fmt_block_linear :: bool

record afrc_t =
  paging_tile_width :: int
  paging_tile_height :: int
  rgba_luma_coding_unit_bytes :: int
  rgba_luma_plane_alignment :: int
  chroma_coding_unit_bytes :: int
  chroma_plane_alignment :: int
  clump_width :: "int list"
  clump_height :: "int list"

record alloc_type_t =
  primary_type :: AllocBaseType
  is_multi_plane :: bool
  is_tiled :: bool
  is_padded :: bool
  is_frontbuffer_safe :: bool
  afrc :: afrc_t

text \<open>
  Modelled from the spec: the member functions \<^verbatim>\<open>is_afbc()\<close>, \<^verbatim>\<open>is_afrc()\<close> and
  \<^verbatim>\<open>is_block_linear()\<close> of \<^verbatim>\<open>alloc_type_t\<close> are declared in a header that is not part
  of the sources at hand. The spec has the encoding decision a tagged variant over
  uncompressed, block-compressed (superblock class basic, wide or extra-wide),
  fixed-rate-compressed and tile-linear.
\<close>

definition is_afbc :: "alloc_type_t \<Rightarrow> bool" where
  "is_afbc t = (primary_type t = AFBC \<or> primary_type t = AFBC_WIDEBLK
                 \<or> primary_type t = AFBC_EXTRAWIDEBLK)"

definition is_afrc :: "alloc_type_t \<Rightarrow> bool" where
  "is_afrc t = (primary_type t = AFRC)"

definition is_block_linear :: "alloc_type_t \<Rightarrow> bool" where
  "is_block_linear t = (primary_type t = BLOCK_LINEAR)"

text \<open>
  The names of the format constants the code mentions. Their values are declared in
  \<^verbatim>\<open>gralloc/formats.h\<close> and the Android headers, not part of the sources at hand;
  \<open>FORMAT_VALUE\<close> below stands for them.
\<close>

datatype format_name =
  MALI_GRALLOC_FORMAT_INTERNAL_UNDEFINED
  | MALI_GRALLOC_FORMAT_INTERNAL_BLOB
  | MALI_GRALLOC_FORMAT_INTERNAL_RAW16
  | MALI_GRALLOC_FORMAT_INTERNAL_RGBA_8888
  | MALI_GRALLOC_FORMAT_INTERNAL_BGRA_8888
  | MALI_GRALLOC_FORMAT_INTERNAL_RGB_565
  | MALI_GRALLOC_FORMAT_INTERNAL_RGBX_8888
  | MALI_GRALLOC_FORMAT_INTERNAL_RGB_888
  | MALI_GRALLOC_FORMAT_INTERNAL_RGBA_1010102
  | MALI_GRALLOC_FORMAT_INTERNAL_RGBA_16161616
  | MALI_GRALLOC_FORMAT_INTERNAL_RGBA_10101010
  | MALI_GRALLOC_FORMAT_INTERNAL_YV12
  | MALI_GRALLOC_FORMAT_INTERNAL_YU12
  | MALI_GRALLOC_FORMAT_INTERNAL_NV12
  | MALI_GRALLOC_FORMAT_INTERNAL_NV15
  | MALI_GRALLOC_FORMAT_INTERNAL_NV16
  | MALI_GRALLOC_FORMAT_INTERNAL_NV21
  | MALI_GRALLOC_FORMAT_INTERNAL_Y0L2
  | MALI_GRALLOC_FORMAT_INTERNAL_Y210
  | MALI_GRALLOC_FORMAT_INTERNAL_P010
  | MALI_GRALLOC_FORMAT_INTERNAL_P210
  | MALI_GRALLOC_FORMAT_INTERNAL_Y410
  | MALI_GRALLOC_FORMAT_INTERNAL_YUV444
  | MALI_GRALLOC_FORMAT_INTERNAL_Q410
  | MALI_GRALLOC_FORMAT_INTERNAL_Q401
  | MALI_GRALLOC_FORMAT_INTERNAL_YUV422_8BIT
  | MALI_GRALLOC_FORMAT_INTERNAL_YUV420_8BIT_I
  | MALI_GRALLOC_FORMAT_INTERNAL_YUV420_10BIT_I
  | HAL_PIXEL_FORMAT_YCBCR_P010

text \<open>
  The constants, macros, inline predicates and functions that the code uses and that
  are declared or defined outside the sources at hand (\<^verbatim>\<open>gralloc/formats.h\<close>,
  \<^verbatim>\<open>usages.h\<close>, \<^verbatim>\<open>format_info.h\<close>, the format table, format selection), so every
  function below takes them as the parameter \<open>D\<close>. \<open>get_format_index\<close> returns
  \<open>-1\<close> for a format that is not in the table. The usage masks are taken as 64-bit
  constants.
\<close>

record decls =
  is_format_afbc :: "64 word \<Rightarrow> bool"
  is_format_afrc :: "64 word \<Rightarrow> bool"
  is_format_block_linear :: "64 word \<Rightarrow> bool"
  INTFMT_AFBC_YUV_TRANSFORM :: "64 word"
  INTFMT_AFBC_WIDEBLK :: "64 word"
  INTFMT_AFBC_EXTRAWIDEBLK :: "64 word"
  INTFMT_AFBC_TILED_HEADERS :: "64 word"
  INTFMT_AFBC_DOUBLE_BODY :: "64 word"
  USAGE_AFBC_PADDING :: "64 word"
  INTFMT_AFRC_ROT_LAYOUT :: "64 word"
  INTFMT_AFRC_RGBA_CODING_UNIT_BYTES_SHIFT :: nat
  INTFMT_AFRC_CHROMA_CODING_UNIT_BYTES_SHIFT :: nat
  INTFMT_AFRC_CODING_UNIT_BYTES_MASK :: "64 word"
  INTFMT_AFRC_CODING_UNIT_BYTES_UNWRAP :: "64 word \<Rightarrow> int"
  INTFMT_FMT_MASK :: "64 word"
  INTFMT_EXT_MASK :: "64 word"
  USAGE_SW_READ_MASK :: "64 word"
  USAGE_SW_WRITE_MASK :: "64 word"
  USAGE_PRIVATE_MASK :: "64 word"
  FORMAT_VALUE :: "format_name \<Rightarrow> 64 word"
  get_internal_format_from_gralloc_format :: "64 word \<Rightarrow> 64 word"
  MAX_PLANES :: nat
  formats :: "format_info_t list"
  get_format_index :: "64 word \<Rightarrow> int"
  mali_gralloc_select_format :: "64 word \<Rightarrow> int \<Rightarrow> 64 word \<Rightarrow> 64 word"
  mali_gralloc_adjust_dimensions :: "64 word \<Rightarrow> 64 word \<Rightarrow> int \<Rightarrow> int \<Rightarrow> int \<times> int"

text \<open>
  The source reports every failure as \<^verbatim>\<open>false\<close> (and then \<^verbatim>\<open>-EINVAL\<close>); the
  constructor records which return statement was taken, under the spec's name for it.
  The warning and error messages written to the log are kept as values.
\<close>

datatype error =
  UnrecognizedFormat
  | InvalidEncodingCombination
  | InvalidCodingUnitSize
  | InvalidComponentCount
  | UnsupportedFormatForEncoding
  | InvalidDimensions

datatype log_msg =
  LOGW_yuv_transform_enabled_for_yuv_format
  | LOGW_extra_wide_must_be_signalled_for_multi_plane
  | LOGW_multi_plane_not_supported_without_tiling
  | LOGE_extra_wide_without_tiled_headers
  | LOGE_front_buffer_safe_with_wide_block
  | LOGE_multiplane_afbc_with_single_plane_format
  | LOGE_invalid_coding_unit_size
  | LOGE_invalid_number_of_components

subsection \<open>Alignment requirements and superblock sizes\<close>

definition afbc_buffer_align :: "bool \<Rightarrow> int \<Rightarrow> int" where
  "afbc_buffer_align tiled sz =
     (let AFBC_BODY_BUFFER_BYTE_ALIGNMENT = 1024;
          buffer_byte_alignment =
            (if tiled then 4 * AFBC_BODY_BUFFER_BYTE_ALIGNMENT
             else AFBC_BODY_BUFFER_BYTE_ALIGNMENT)
      in GRALLOC_ALIGN s32 sz buffer_byte_alignment)"

text \<open>The second component is the message the default case logs.\<close>

definition afrc_plane_alignment_requirement :: "int \<Rightarrow> int \<times> log_msg list" where
  "afrc_plane_alignment_requirement coding_unit_size =
     (if coding_unit_size = 16 then (1024, [])
      else if coding_unit_size = 24 then (512, [])
      else if coding_unit_size = 32 then (2048, [])
      else (0, [LOGE_invalid_coding_unit_size]))"

fun get_afbc_sb_size_base :: "AllocBaseType \<Rightarrow> rect_t" where
  "get_afbc_sb_size_base AFBC = \<lparr>width = 16, height = 16\<rparr>"
| "get_afbc_sb_size_base AFBC_WIDEBLK = \<lparr>width = 32, height = 8\<rparr>"
| "get_afbc_sb_size_base AFBC_EXTRAWIDEBLK = \<lparr>width = 64, height = 4\<rparr>"
| "get_afbc_sb_size_base _ = \<lparr>width = 0, height = 0\<rparr>"

definition get_afbc_sb_size :: "alloc_type_t \<Rightarrow> nat \<Rightarrow> rect_t" where
  "get_afbc_sb_size alloc_type plane =
     (if plane > 0 \<and> is_afbc alloc_type \<and> is_multi_plane alloc_type
      then get_afbc_sb_size_base AFBC_EXTRAWIDEBLK
      else get_afbc_sb_size_base (primary_type alloc_type))"

subsection \<open>Encoding selection: \<^verbatim>\<open>get_alloc_type\<close>\<close>

text \<open>
  The source takes \<^verbatim>\<open>format_idx\<close> and reads \<^verbatim>\<open>formats[format_idx]\<close>; the row is the
  parameter \<open>format\<close>. \<^verbatim>\<open>alloc_type\<close> is an out-parameter: its \<^verbatim>\<open>afrc\<close> member keeps
  what the caller passed in unless the fixed-rate branch writes it, so the incoming
  value is the parameter \<open>alloc_type0\<close>. The result is the log and either the error or
  the selected type.
\<close>

definition flag :: "64 word \<Rightarrow> 64 word \<Rightarrow> bool" where
  "flag x m = (x AND m \<noteq> 0)"

definition get_alloc_type_afbc ::
  "decls \<Rightarrow> format_info_t \<Rightarrow> 64 word \<Rightarrow> 64 word \<Rightarrow> alloc_type_t
   \<Rightarrow> log_msg list \<times> (error + alloc_type_t)" where
  "get_alloc_type_afbc D format format_ext usage t0 =
     (let log1 = (if is_yuv format \<and> flag format_ext (INTFMT_AFBC_YUV_TRANSFORM D)
                  then [LOGW_yuv_transform_enabled_for_yuv_format] else []);
          t1 = t0\<lparr>primary_type :=
                 (if flag format_ext (INTFMT_AFBC_WIDEBLK D) then AFBC_WIDEBLK
                  else if flag format_ext (INTFMT_AFBC_EXTRAWIDEBLK D) then AFBC_EXTRAWIDEBLK
                  else AFBC)\<rparr>;
          (log2, t2) =
            (if flag format_ext (INTFMT_AFBC_TILED_HEADERS D) then
               (let ta = t1\<lparr>is_tiled := True\<rparr>;
                    (la, tb) =
                      (if npln format > 1 \<and> \<not> flag format_ext (INTFMT_AFBC_EXTRAWIDEBLK D)
                       then ([LOGW_extra_wide_must_be_signalled_for_multi_plane],
                             ta\<lparr>is_multi_plane := False\<rparr>)
                       else ([], ta))
                in (la, if flag format_ext (INTFMT_AFBC_DOUBLE_BODY D)
                        then tb\<lparr>is_frontbuffer_safe := True\<rparr> else tb))
             else
               ((if npln format > 1 then [LOGW_multi_plane_not_supported_without_tiling]
                 else []),
                t1\<lparr>is_multi_plane := False\<rparr>))
      in if flag format_ext (INTFMT_AFBC_EXTRAWIDEBLK D) \<and> \<not> is_tiled t2
         then (log1 @ log2 @ [LOGE_extra_wide_without_tiled_headers],
               Inl InvalidEncodingCombination)
         else
           (let log3 =
                  (if is_frontbuffer_safe t2 \<and>
                      flag format_ext (INTFMT_AFBC_WIDEBLK D OR INTFMT_AFBC_EXTRAWIDEBLK D)
                   then [LOGE_front_buffer_safe_with_wide_block] else [])
            in if npln format = 1 \<and> flag format_ext (INTFMT_AFBC_WIDEBLK D)
                  \<and> flag format_ext (INTFMT_AFBC_EXTRAWIDEBLK D)
               then (log1 @ log2 @ log3 @ [LOGE_multiplane_afbc_with_single_plane_format],
                     Inl InvalidEncodingCombination)
               else (log1 @ log2 @ log3,
                     Inr (if flag usage (USAGE_AFBC_PADDING D)
                          then t2\<lparr>is_padded := True\<rparr> else t2))))"

text \<open>
  The loop over the planes of the fixed-rate branch, on the list of plane indices still
  to visit. A write past the end of \<^verbatim>\<open>clump_width\<close> is undefined behaviour in C; the
  list update leaves the list as it is.
\<close>

fun afrc_clump_loop ::
  "format_info_t \<Rightarrow> nat list \<Rightarrow> afrc_t \<Rightarrow> log_msg list \<times> (error + afrc_t)" where
  "afrc_clump_loop format [] a = ([], Inr a)"
| "afrc_clump_loop format (plane # planes) a =
     (if ncmp format ! plane = 1 then
        afrc_clump_loop format planes
          (a\<lparr>clump_width := (clump_width a)[plane := paging_tile_width a],
             clump_height := (clump_height a)[plane := paging_tile_height a]\<rparr>)
      else if ncmp format ! plane = 2 then
        afrc_clump_loop format planes
          (a\<lparr>clump_width := (clump_width a)[plane := 8],
             clump_height := (clump_height a)[plane := 4]\<rparr>)
      else if ncmp format ! plane = 3 \<or> ncmp format ! plane = 4 then
        afrc_clump_loop format planes
          (a\<lparr>clump_width := (clump_width a)[plane := 4],
             clump_height := (clump_height a)[plane := 4]\<rparr>)
      else ([LOGE_invalid_number_of_components], Inl InvalidComponentCount))"

definition afrc_coding_unit_bytes :: "decls \<Rightarrow> 64 word \<Rightarrow> nat \<Rightarrow> int" where
  "afrc_coding_unit_bytes D format_ext shift =
     INTFMT_AFRC_CODING_UNIT_BYTES_UNWRAP D
       (drop_bit shift format_ext AND INTFMT_AFRC_CODING_UNIT_BYTES_MASK D)"

definition get_alloc_type_afrc ::
  "decls \<Rightarrow> format_info_t \<Rightarrow> 64 word \<Rightarrow> alloc_type_t
   \<Rightarrow> log_msg list \<times> (error + alloc_type_t)" where
  "get_alloc_type_afrc D format format_ext t0 =
     (let t1 = t0\<lparr>primary_type := AFRC\<rparr>;
          a1 = (if flag format_ext (INTFMT_AFRC_ROT_LAYOUT D)
                then (afrc t1)\<lparr>paging_tile_width := 8, paging_tile_height := 8\<rparr>
                else (afrc t1)\<lparr>paging_tile_width := 16, paging_tile_height := 4\<rparr>);
          luma = afrc_coding_unit_bytes D format_ext
                   (INTFMT_AFRC_RGBA_CODING_UNIT_BYTES_SHIFT D);
          (luma_align, log1) = afrc_plane_alignment_requirement luma;
          a2 = a1\<lparr>rgba_luma_coding_unit_bytes := luma,
                  rgba_luma_plane_alignment := luma_align\<rparr>
      in if luma_align = 0 then (log1, Inl InvalidCodingUnitSize)
         else
           (let chroma = afrc_coding_unit_bytes D format_ext
                           (INTFMT_AFRC_CHROMA_CODING_UNIT_BYTES_SHIFT D);
                (chroma_align, log2) = afrc_plane_alignment_requirement chroma;
                a3 = a2\<lparr>chroma_coding_unit_bytes := chroma,
                        chroma_plane_alignment := chroma_align\<rparr>
            in if chroma_align = 0 then (log1 @ log2, Inl InvalidCodingUnitSize)
               else
                 (case afrc_clump_loop format [0..<npln format] a3 of
                    (log3, Inl e) \<Rightarrow> (log1 @ log2 @ log3, Inl e)
                  | (log3, Inr a4) \<Rightarrow> (log1 @ log2 @ log3, Inr (t1\<lparr>afrc := a4\<rparr>)))))"

definition get_alloc_type ::
  "decls \<Rightarrow> format_info_t \<Rightarrow> 64 word \<Rightarrow> 64 word \<Rightarrow> alloc_type_t
   \<Rightarrow> log_msg list \<times> (error + alloc_type_t)" where
  "get_alloc_type D format format_ext usage alloc_type0 =
     (let t0 = alloc_type0\<lparr>primary_type := UNCOMPRESSED,
                            is_multi_plane := npln format > 1,
                            is_tiled := False,
                            is_padded := False,
                            is_frontbuffer_safe := False\<rparr>
      in if is_format_afbc D format_ext then get_alloc_type_afbc D format format_ext usage t0
         else if is_format_afrc D format_ext then get_alloc_type_afrc D format format_ext t0
         else if is_format_block_linear D format_ext
         then ([], Inr (t0\<lparr>primary_type := BLOCK_LINEAR\<rparr>))
         else ([], Inr t0))"

subsection \<open>Plane dimensions: \<^verbatim>\<open>get_pixel_w_h\<close>\<close>

text \<open>
  The block-compressed branch of \<^verbatim>\<open>get_pixel_w_h\<close>: the pair
  \<^verbatim>\<open>(pixel_align_w, pixel_align_h)\<close> it leaves. \<^verbatim>\<open>HEADER_STRIDE_ALIGN_IN_SUPER_BLOCKS\<close>
  is 0. The tile dimensions are at most \<open>8 * 64\<close>, within \<^verbatim>\<open>uint16_t\<close>.
\<close>

definition afbc_pixel_align :: "format_info_t \<Rightarrow> alloc_type_t \<Rightarrow> nat \<Rightarrow> rect_t \<Rightarrow> int \<times> int" where
  "afbc_pixel_align format alloc_type plane sb =
     (let num_sb_align = (if is_padded alloc_type \<and> \<not> is_yuv format then 4 else 0);
          w0 = max2 0 num_sb_align * width sb;
          afbc_tile =
            (if is_tiled alloc_type then
               \<lparr>width = (if bpp_afbc format ! plane > 32 then 4 * width sb else 8 * width sb),
                height = (if bpp_afbc format ! plane > 32 then 4 * height sb else 8 * height sb)\<rparr>
             else sb);
          w1 = max2 w0 (width afbc_tile);
          h1 = max2 1 (height afbc_tile);
          h2 = (if primary_type alloc_type = AFBC_WIDEBLK \<and> \<not> is_tiled alloc_type
                then max2 h1 16 else h1)
      in (w1, h2))"

text \<open>
  \<open>w\<close> and \<open>h\<close> are the values \<^verbatim>\<open>*width\<close> and \<^verbatim>\<open>*height\<close> hold on entry
  (\<^verbatim>\<open>uint32_t\<close>); the result is what they hold on return. A zero \<^verbatim>\<open>hsub\<close> or
  \<^verbatim>\<open>vsub\<close> is a division by zero in C and yields 0 here.
\<close>

definition get_pixel_w_h ::
  "int \<Rightarrow> int \<Rightarrow> format_info_t \<Rightarrow> alloc_type_t \<Rightarrow> nat \<Rightarrow> bool \<Rightarrow> int \<times> int" where
  "get_pixel_w_h w h format alloc_type plane has_cpu_usage =
     (let sb = get_afbc_sb_size alloc_type plane;
          w1 = GRALLOC_ALIGN u32 w (align_w format);
          h1 = GRALLOC_ALIGN u32 h (align_h format);
          w2 = (if plane > 0 then w1 div u32 (hsub format) else w1);
          h2 = (if plane > 0 then h1 div u32 (vsub format) else h1);
          (pixel_align_w, pixel_align_h) =
            (if has_cpu_usage then (align_w_cpu format, 1)
             else if is_afbc alloc_type then afbc_pixel_align format alloc_type plane sb
             else if is_afrc alloc_type then
               (s32 (paging_tile_width (afrc alloc_type) * (clump_width (afrc alloc_type) ! plane)),
                s32 (paging_tile_height (afrc alloc_type) * (clump_height (afrc alloc_type) ! plane)))
             else if is_block_linear alloc_type then (16, 16)
             else (1, 1))
      in (GRALLOC_ALIGN u32 w2 (max3 1 pixel_align_w (tile_size format)),
          GRALLOC_ALIGN u32 h2 (max3 1 pixel_align_h (tile_size format))))"

subsection \<open>Stride alignment helpers\<close>

function gcd_loop :: "int \<Rightarrow> int \<Rightarrow> int" where
  "gcd_loop a b = (if b = 0 then a else gcd_loop b (a mod b))"
  by pat_completeness auto
termination
  by (relation "measure (\<lambda>(a, b). nat \<bar>b\<bar>)") (auto simp: abs_mod_less)

declare gcd_loop.simps [simp del]

definition gcd_u32 :: "int \<Rightarrow> int \<Rightarrow> int" where
  "gcd_u32 a b = (if a = b then a else if a < b then gcd_loop b a else gcd_loop a b)"

definition lcm_u32 :: "int \<Rightarrow> int \<Rightarrow> int" where
  "lcm_u32 a b =
     (if a \<noteq> 0 \<and> b \<noteq> 0 then u32 (a * b) div gcd_u32 a b
      else u32 (max2 (s32 a) (s32 b)))"

text \<open>
  \<^verbatim>\<open>assert\<close> aborts in a debug build and is compiled out under \<^verbatim>\<open>NDEBUG\<close>. The model
  computes on as the \<^verbatim>\<open>NDEBUG\<close> build does and returns, next to each value, whether the
  assertions passed.
\<close>

definition update_yv12_stride :: "nat \<Rightarrow> int \<Rightarrow> int \<Rightarrow> int \<times> bool" where
  "update_yv12_stride plane luma_stride stride_align =
     (if plane = 0 then (GRALLOC_ALIGN u32 luma_stride (u32 (2 * stride_align)), True)
      else
        (let byte_stride = luma_stride div 2
         in (byte_stride,
             byte_stride = GRALLOC_ALIGN u32 byte_stride stride_align
             \<and> byte_stride mod 16 = 0)))"

subsection \<open>Size calculation: \<^verbatim>\<open>calc_allocation_size\<close>\<close>

record plane_info_t =
  offset :: int
  byte_stride :: int
  alloc_width :: int
  alloc_height :: int

text \<open>
  The state of the loop over the planes: the out-parameters \<^verbatim>\<open>*pixel_stride\<close>,
  \<^verbatim>\<open>*size\<close> (here \<open>alloc_size\<close>) and \<^verbatim>\<open>plane_info[]\<close>, and two fields that are not in
  the source: \<open>plane_sizes\<close> keeps the locals \<^verbatim>\<open>body_size\<close> and \<^verbatim>\<open>header_size\<close> of each
  iteration, in plane order, and \<open>asserts_hold\<close> whether every assertion so far passed.
\<close>

record calc_state =
  pixel_stride :: int
  alloc_size :: int
  plane_info :: "plane_info_t list"
  plane_sizes :: "(int \<times> int) list"
  asserts_hold :: bool

text \<open>
  "Calculate byte stride (per plane)": the stride of \<open>plane\<close> and whether the
  assertions passed. \<open>pinfo\<close> is \<^verbatim>\<open>plane_info[]\<close> with the allocation dimensions of
  \<open>plane\<close> already written.
\<close>

definition calc_byte_stride ::
  "decls \<Rightarrow> alloc_type_t \<Rightarrow> format_info_t \<Rightarrow> bool \<Rightarrow> bool \<Rightarrow> nat \<Rightarrow> plane_info_t list
   \<Rightarrow> int \<times> bool" where
  "calc_byte_stride D alloc_type format has_cpu_usage has_hw_usage plane pinfo =
     (let aw = alloc_width (pinfo ! plane) in
      if is_afrc alloc_type then
        (let coding_unit_bytes =
               u32 (if plane = 0 then rgba_luma_coding_unit_bytes (afrc alloc_type)
                    else chroma_coding_unit_bytes (afrc alloc_type));
             paging_tile_stride =
               aw div u32 (clump_width (afrc alloc_type) ! plane)
                  div u32 (paging_tile_width (afrc alloc_type));
             coding_units_in_paging_tile = 64
         in (u32 (paging_tile_stride * coding_units_in_paging_tile * coding_unit_bytes), True))
      else if is_afbc alloc_type then
        (u32 (aw * (bpp_afbc format ! plane)) div 8,
         u32 (aw * (bpp_afbc format ! plane)) mod 8 = 0)
      else if is_block_linear alloc_type then
        (let sample_height = (if plane > 0 then 16 div u32 (vsub format) else 16);
             sample_width = (if plane > 0 then 16 div u32 (hsub format) else 16);
             bytes_per_block = u32 (sample_height * sample_width * (bpp format ! plane)) div 8;
             number_of_x_blocks = alloc_width (pinfo ! 0) div 16
         in (u32 (number_of_x_blocks * bytes_per_block),
             u32 (aw * (bpp format ! plane)) mod 8 = 0))
      else
        (let ok1 = (u32 (aw * (bpp format ! plane)) mod 8 = 0);
             stride0 = u32 (aw * (bpp format ! plane)) div 8;
             hw_align = (if has_hw_usage then (if is_yuv format then 128 else 64) else 0);
             ok2 = (has_cpu_usage \<longrightarrow> ((bpp format ! plane) * align_w_cpu format) mod 8 = 0);
             cpu_align = (if has_cpu_usage
                          then u32 (((bpp format ! plane) * align_w_cpu format) sdiv 8) else 0);
             stride_align = lcm_u32 hw_align cpu_align;
             stride1 = (if stride_align \<noteq> 0
                        then GRALLOC_ALIGN u32 (u32 (stride0 * tile_size format)) stride_align
                               div u32 (tile_size format)
                        else stride0)
         in if format_id format = uint (FORMAT_VALUE D MALI_GRALLOC_FORMAT_INTERNAL_YV12) \<and> has_hw_usage \<and> has_cpu_usage
            then (let pinfo1 = pinfo[plane := (pinfo ! plane)\<lparr>byte_stride := stride1\<rparr>];
                      (stride2, ok3) =
                        update_yv12_stride plane (byte_stride (pinfo1 ! 0)) stride_align
                  in (stride2, ok1 \<and> ok2 \<and> ok3))
            else (stride1, ok1 \<and> ok2)))"

text \<open>"Calculate body size (per plane)", the local \<^verbatim>\<open>int body_size\<close>.\<close>

definition calc_body_size ::
  "alloc_type_t \<Rightarrow> format_info_t \<Rightarrow> nat \<Rightarrow> plane_info_t list \<Rightarrow> int" where
  "calc_body_size alloc_type format plane pinfo =
     (let aw = alloc_width (pinfo ! plane);
          ah = alloc_height (pinfo ! plane);
          sb_num = u32 (aw * ah) div 256
      in
      if is_afbc alloc_type then
        (let sb = get_afbc_sb_size alloc_type plane;
             sb_bytes = GRALLOC_ALIGN s32
                          (((bpp_afbc format ! plane) * width sb * height sb) sdiv 8) 128;
             body0 = s32 (u32 (sb_num * u32 sb_bytes));
             body1 = (if npln format > 1 \<and> plane < 2
                      then afbc_buffer_align (is_tiled alloc_type) body0 else body0)
         in if is_frontbuffer_safe alloc_type
            then s32 (body1 + afbc_buffer_align (is_tiled alloc_type) body1)
            else body1)
      else if is_afrc alloc_type then
        (let coding_unit_bytes =
               u32 (if plane = 0 then rgba_luma_coding_unit_bytes (afrc alloc_type)
                    else chroma_coding_unit_bytes (afrc alloc_type));
             s_coding_units = aw div u32 (clump_width (afrc alloc_type) ! plane);
             t_coding_units = ah div u32 (clump_height (afrc alloc_type) ! plane)
         in s32 (u32 (s_coding_units * t_coding_units * coding_unit_bytes)))
      else if is_block_linear alloc_type then
        (let number_of_blocks_y = alloc_height (pinfo ! 0) div 16
         in s32 (u32 (byte_stride (pinfo ! plane) * number_of_blocks_y)))
      else s32 (u32 (byte_stride (pinfo ! plane) * ah)))"

text \<open>"Calculate header size (per plane)", the local \<^verbatim>\<open>int header_size\<close>.\<close>

definition calc_header_size :: "alloc_type_t \<Rightarrow> nat \<Rightarrow> plane_info_t list \<Rightarrow> int" where
  "calc_header_size alloc_type plane pinfo =
     (let sb_num = u32 (alloc_width (pinfo ! plane) * alloc_height (pinfo ! plane)) div 256;
          AFBC_HEADER_BUFFER_BYTES_PER_BLOCKENTRY = 16
      in if is_afbc alloc_type
         then afbc_buffer_align (is_tiled alloc_type)
                (s32 (u32 (sb_num * AFBC_HEADER_BUFFER_BYTES_PER_BLOCKENTRY)))
         else 0)"

text \<open>One iteration of the loop over the planes.\<close>

definition calc_plane ::
  "decls \<Rightarrow> int \<Rightarrow> int \<Rightarrow> alloc_type_t \<Rightarrow> format_info_t \<Rightarrow> bool \<Rightarrow> bool \<Rightarrow> nat
   \<Rightarrow> calc_state \<Rightarrow> calc_state" where
  "calc_plane D w h alloc_type format has_cpu_usage has_hw_usage plane st =
     (let (aw, ah) = get_pixel_w_h (u32 w) (u32 h) format alloc_type plane has_cpu_usage;
          pinfo1 = (plane_info st)[plane :=
                     (plane_info st ! plane)\<lparr>alloc_width := aw, alloc_height := ah\<rparr>];
          (stride, ok1) =
            calc_byte_stride D alloc_type format has_cpu_usage has_hw_usage plane pinfo1;
          pinfo2 = pinfo1[plane := (pinfo1 ! plane)\<lparr>byte_stride := stride\<rparr>];
          is_cpu_accessible =
            (\<not> is_afbc alloc_type \<and> \<not> is_afrc alloc_type \<and> \<not> is_block_linear alloc_type
             \<and> has_cpu_usage);
          (pstride, ok2) =
            (if plane = 0 then
               (if is_cpu_accessible
                then (s32 (u32 (stride * 8) div u32 (bpp format ! plane)),
                      u32 (stride * 8) mod u32 (bpp format ! plane) = 0)
                else (0, True))
             else (pixel_stride st, True));
          size1 =
            (if is_afrc alloc_type
             then GRALLOC_ALIGN u64 (alloc_size st)
                    (u32 (if plane = 0 then rgba_luma_plane_alignment (afrc alloc_type)
                          else chroma_plane_alignment (afrc alloc_type)))
             else alloc_size st);
          body_size = calc_body_size alloc_type format plane pinfo2;
          header_size = calc_header_size alloc_type plane pinfo2;
          pinfo3 = (if plane > 0 then pinfo2[plane := (pinfo2 ! plane)\<lparr>offset := u32 size1\<rparr>]
                    else pinfo2)
      in \<lparr>pixel_stride = pstride,
          alloc_size = u64 (size1 + u64 (s32 (body_size + header_size))),
          plane_info = pinfo3,
          plane_sizes = plane_sizes st @ [(body_size, header_size)],
          asserts_hold = (asserts_hold st \<and> ok1 \<and> ok2)\<rparr>)"

text \<open>
  \<open>pstride0\<close> and \<open>pinfo0\<close> are what \<^verbatim>\<open>*pixel_stride\<close> and \<^verbatim>\<open>plane_info[]\<close> hold on
  entry. The plane counter is a \<^verbatim>\<open>uint8_t\<close> running below \<^verbatim>\<open>format.npln\<close>.
\<close>

definition calc_allocation_size ::
  "decls \<Rightarrow> int \<Rightarrow> int \<Rightarrow> alloc_type_t \<Rightarrow> format_info_t \<Rightarrow> bool \<Rightarrow> bool
   \<Rightarrow> int \<Rightarrow> plane_info_t list \<Rightarrow> calc_state" where
  "calc_allocation_size D w h alloc_type format has_cpu_usage has_hw_usage pstride0 pinfo0 =
     fold (calc_plane D w h alloc_type format has_cpu_usage has_hw_usage) [0..<npln format]
       \<lparr>pixel_stride = pstride0,
        alloc_size = 0,
        plane_info = pinfo0[0 := (pinfo0 ! 0)\<lparr>offset := 0\<rparr>],
        plane_sizes = [],
        asserts_hold = True\<rparr>"

subsection \<open>Validation and the entry point\<close>

text \<open>
  \<^verbatim>\<open>buffer_descriptor_t\<close> (declared in \<^verbatim>\<open>buffer_descriptor.h\<close>, not part of the sources
  at hand), with the fields the code reads and writes. The field names carry the prefix
  \<open>bd_\<close>.
\<close>

record buffer_descriptor_t =
  bd_width :: int
  bd_height :: int
  bd_hal_format :: "64 word"
  bd_format_type :: int
  bd_producer_usage :: "64 word"
  bd_consumer_usage :: "64 word"
  bd_layer_count :: int
  bd_alloc_format :: "64 word"
  bd_pixel_stride :: int
  bd_size :: int
  bd_plane_info :: "plane_info_t list"

text \<open>\<^verbatim>\<open>validate_format\<close> returns \<open>None\<close> where the source returns \<^verbatim>\<open>true\<close>.\<close>

definition validate_format ::
  "decls \<Rightarrow> format_info_t \<Rightarrow> alloc_type_t \<Rightarrow> buffer_descriptor_t \<Rightarrow> error option" where
  "validate_format D format alloc_type bufDescriptor =
     (let family =
            (if is_afbc alloc_type then
               (if \<not> fmt_afbc format then Some UnsupportedFormatForEncoding
                else if (npln format = 1 \<and> is_multi_plane alloc_type)
                        \<or> (npln format > 1 \<and> \<not> is_multi_plane alloc_type)
                then Some UnsupportedFormatForEncoding
                else None)
             else if is_afrc alloc_type then
               (if \<not> fmt_afrc format then Some UnsupportedFormatForEncoding else None)
             else if is_block_linear alloc_type then
               (if \<not> fmt_block_linear format then Some UnsupportedFormatForEncoding else None)
             else
               (if \<not> fmt_linear format then Some UnsupportedFormatForEncoding else None))
      in case family of
           Some e \<Rightarrow> Some e
         | None \<Rightarrow>
             (if format_id format = uint (FORMAT_VALUE D MALI_GRALLOC_FORMAT_INTERNAL_BLOB)
                 \<and> bd_height bufDescriptor \<noteq> 1
              then Some InvalidDimensions else None))"

text \<open>\<^verbatim>\<open>alloc_type_t alloc_type{}\<close>: every member zero.\<close>

definition alloc_type_zero :: "decls \<Rightarrow> alloc_type_t" where
  "alloc_type_zero D =
     \<lparr>primary_type = UNCOMPRESSED, is_multi_plane = False, is_tiled = False,
      is_padded = False, is_frontbuffer_safe = False,
      afrc = \<lparr>paging_tile_width = 0, paging_tile_height = 0,
              rgba_luma_coding_unit_bytes = 0, rgba_luma_plane_alignment = 0,
              chroma_coding_unit_bytes = 0, chroma_plane_alignment = 0,
              clump_width = replicate (MAX_PLANES D) 0,
              clump_height = replicate (MAX_PLANES D) 0\<rparr>\<rparr>"

text \<open>
  "Each layer of a multi-layer buffer must be aligned ...": the last block of
  \<^verbatim>\<open>mali_gralloc_derive_format_and_size\<close>, from the size of one layer to the size of the
  buffer.
\<close>

definition layer_size :: "decls \<Rightarrow> 64 word \<Rightarrow> int \<Rightarrow> int \<Rightarrow> int" where
  "layer_size D alloc_format layer_count sz =
     (if layer_count > 1 then
        (let sz1 =
               (if is_format_afbc D alloc_format then
                  (if flag alloc_format (INTFMT_AFBC_TILED_HEADERS D)
                   then GRALLOC_ALIGN u64 sz 4096
                   else GRALLOC_ALIGN u64 sz 128)
                else sz)
         in u64 (sz1 * layer_count))
      else sz)"

text \<open>
  The part of \<^verbatim>\<open>mali_gralloc_derive_format_and_size\<close> after validation: dimension
  adjustment, \<^verbatim>\<open>calc_allocation_size\<close> and the multi-layer block. The result is the
  descriptor as the function leaves it on return 0.
\<close>

definition derive_size ::
  "decls \<Rightarrow> buffer_descriptor_t \<Rightarrow> 64 word \<Rightarrow> format_info_t \<Rightarrow> alloc_type_t
   \<Rightarrow> buffer_descriptor_t" where
  "derive_size D descriptor alloc_format format alloc_type =
     (let usage = bd_producer_usage descriptor OR bd_consumer_usage descriptor;
          (aw, ah) = mali_gralloc_adjust_dimensions D alloc_format usage
                       (s32 (bd_width descriptor)) (s32 (bd_height descriptor));
          st = calc_allocation_size D aw ah alloc_type format
                 (flag usage (USAGE_SW_READ_MASK D OR USAGE_SW_WRITE_MASK D))
                 (flag usage (NOT (USAGE_PRIVATE_MASK D OR USAGE_SW_READ_MASK D OR
                                   USAGE_SW_WRITE_MASK D)))
                 (bd_pixel_stride descriptor)
                 (bd_plane_info descriptor)
      in descriptor
           \<lparr>bd_alloc_format := alloc_format,
            bd_pixel_stride := pixel_stride st,
            bd_plane_info := plane_info st,
            bd_size := layer_size D alloc_format (bd_layer_count descriptor)
                         (alloc_size st)\<rparr>)"

text \<open>
  The result is the error (\<^verbatim>\<open>-EINVAL\<close> in the source) or the descriptor on return 0.
\<close>

definition mali_gralloc_derive_format_and_size ::
  "decls \<Rightarrow> buffer_descriptor_t \<Rightarrow> error + buffer_descriptor_t" where
  "mali_gralloc_derive_format_and_size D descriptor =
     (let usage = bd_producer_usage descriptor OR bd_consumer_usage descriptor;
          alloc_format = mali_gralloc_select_format D (bd_hal_format descriptor)
                           (bd_format_type descriptor) usage
      in if alloc_format = FORMAT_VALUE D MALI_GRALLOC_FORMAT_INTERNAL_UNDEFINED
         then Inl UnrecognizedFormat
         else
           (let format_idx = get_format_index D (alloc_format AND INTFMT_FMT_MASK D)
            in if format_idx = - 1 then Inl UnrecognizedFormat
               else
                 (let format = formats D ! nat format_idx
                  in case snd (get_alloc_type D format (alloc_format AND INTFMT_EXT_MASK D)
                                 usage (alloc_type_zero D)) of
                       Inl e \<Rightarrow> Inl e
                     | Inr alloc_type \<Rightarrow>
                         (case validate_format D format alloc_type descriptor of
                            Some e \<Rightarrow> Inl e
                          | None \<Rightarrow>
                              Inr (derive_size D descriptor alloc_format format alloc_type)))))"

subsection \<open>Wire format code: \<^verbatim>\<open>drm_fourcc_from_handle\<close>\<close>

text \<open>
  The \<^verbatim>\<open>DRM_FORMAT_*\<close> codes the table mentions (declared in \<^verbatim>\<open>drm_fourcc.h\<close>), by
  name.
\<close>

datatype drm_format =
  DRM_FORMAT_INVALID
  | DRM_FORMAT_R16
  | DRM_FORMAT_ABGR8888
  | DRM_FORMAT_ARGB8888
  | DRM_FORMAT_RGB565
  | DRM_FORMAT_BGR565
  | DRM_FORMAT_XBGR8888
  | DRM_FORMAT_BGR888
  | DRM_FORMAT_ABGR2101010
  | DRM_FORMAT_ABGR16161616F
  | DRM_FORMAT_AXBXGXRX106106106106
  | DRM_FORMAT_YVU420
  | DRM_FORMAT_YUV420
  | DRM_FORMAT_NV12
  | DRM_FORMAT_NV15
  | DRM_FORMAT_NV16
  | DRM_FORMAT_NV21
  | DRM_FORMAT_Y0L2
  | DRM_FORMAT_Y210
  | DRM_FORMAT_P010
  | DRM_FORMAT_P210
  | DRM_FORMAT_Y410
  | DRM_FORMAT_YUV444
  | DRM_FORMAT_Q410
  | DRM_FORMAT_Q401
  | DRM_FORMAT_YUYV
  | DRM_FORMAT_YUV420_8BIT
  | DRM_FORMAT_YUV420_10BIT

datatype format_colormodel = rgb | yuv

record table_entry =
  fourcc :: drm_format
  colormodel :: format_colormodel

text \<open>
  The initialiser list of the \<^verbatim>\<open>std::unordered_map\<close>, in source order. Of two entries
  with the same key the map keeps the first, as \<open>map_of\<close> does.
\<close>

definition table_entries :: "(format_name \<times> table_entry) list" where
  "table_entries =
     [(MALI_GRALLOC_FORMAT_INTERNAL_RAW16, \<lparr>fourcc = DRM_FORMAT_R16, colormodel = rgb\<rparr>),
      (MALI_GRALLOC_FORMAT_INTERNAL_RGBA_8888, \<lparr>fourcc = DRM_FORMAT_ABGR8888, colormodel = rgb\<rparr>),
      (MALI_GRALLOC_FORMAT_INTERNAL_BGRA_8888, \<lparr>fourcc = DRM_FORMAT_ARGB8888, colormodel = rgb\<rparr>),
      (MALI_GRALLOC_FORMAT_INTERNAL_RGB_565, \<lparr>fourcc = DRM_FORMAT_RGB565, colormodel = rgb\<rparr>),
      (MALI_GRALLOC_FORMAT_INTERNAL_RGBX_8888, \<lparr>fourcc = DRM_FORMAT_XBGR8888, colormodel = rgb\<rparr>),
      (MALI_GRALLOC_FORMAT_INTERNAL_RGB_888, \<lparr>fourcc = DRM_FORMAT_BGR888, colormodel = rgb\<rparr>),
      (MALI_GRALLOC_FORMAT_INTERNAL_RGBA_1010102,
         \<lparr>fourcc = DRM_FORMAT_ABGR2101010, colormodel = rgb\<rparr>),
      (MALI_GRALLOC_FORMAT_INTERNAL_RGBA_16161616,
         \<lparr>fourcc = DRM_FORMAT_ABGR16161616F, colormodel = rgb\<rparr>),
      (MALI_GRALLOC_FORMAT_INTERNAL_RGBA_10101010,
         \<lparr>fourcc = DRM_FORMAT_AXBXGXRX106106106106, colormodel = rgb\<rparr>),
      (MALI_GRALLOC_FORMAT_INTERNAL_YV12, \<lparr>fourcc = DRM_FORMAT_YVU420, colormodel = yuv\<rparr>),
      (MALI_GRALLOC_FORMAT_INTERNAL_YU12, \<lparr>fourcc = DRM_FORMAT_YUV420, colormodel = yuv\<rparr>),
      (MALI_GRALLOC_FORMAT_INTERNAL_NV12, \<lparr>fourcc = DRM_FORMAT_NV12, colormodel = yuv\<rparr>),
      (MALI_GRALLOC_FORMAT_INTERNAL_NV15, \<lparr>fourcc = DRM_FORMAT_NV15, colormodel = yuv\<rparr>),
      (MALI_GRALLOC_FORMAT_INTERNAL_NV16, \<lparr>fourcc = DRM_FORMAT_NV16, colormodel = yuv\<rparr>),
      (MALI_GRALLOC_FORMAT_INTERNAL_NV21, \<lparr>fourcc = DRM_FORMAT_NV21, colormodel = yuv\<rparr>),
      (MALI_GRALLOC_FORMAT_INTERNAL_Y0L2, \<lparr>fourcc = DRM_FORMAT_Y0L2, colormodel = yuv\<rparr>),
      (MALI_GRALLOC_FORMAT_INTERNAL_Y210, \<lparr>fourcc = DRM_FORMAT_Y210, colormodel = yuv\<rparr>),
      (MALI_GRALLOC_FORMAT_INTERNAL_P010, \<lparr>fourcc = DRM_FORMAT_P010, colormodel = yuv\<rparr>),
      (MALI_GRALLOC_FORMAT_INTERNAL_P210, \<lparr>fourcc = DRM_FORMAT_P210, colormodel = yuv\<rparr>),
      (MALI_GRALLOC_FORMAT_INTERNAL_Y410, \<lparr>fourcc = DRM_FORMAT_Y410, colormodel = yuv\<rparr>),
      (MALI_GRALLOC_FORMAT_INTERNAL_YUV444, \<lparr>fourcc = DRM_FORMAT_YUV444, colormodel = yuv\<rparr>),
      (MALI_GRALLOC_FORMAT_INTERNAL_Q410, \<lparr>fourcc = DRM_FORMAT_Q410, colormodel = yuv\<rparr>),
      (MALI_GRALLOC_FORMAT_INTERNAL_Q401, \<lparr>fourcc = DRM_FORMAT_Q401, colormodel = yuv\<rparr>),
      (MALI_GRALLOC_FORMAT_INTERNAL_YUV422_8BIT, \<lparr>fourcc = DRM_FORMAT_YUYV, colormodel = yuv\<rparr>),
      (MALI_GRALLOC_FORMAT_INTERNAL_YUV420_8BIT_I,
         \<lparr>fourcc = DRM_FORMAT_YUV420_8BIT, colormodel = yuv\<rparr>),
      (MALI_GRALLOC_FORMAT_INTERNAL_YUV420_10BIT_I,
         \<lparr>fourcc = DRM_FORMAT_YUV420_10BIT, colormodel = yuv\<rparr>),
      (HAL_PIXEL_FORMAT_YCBCR_P010, \<lparr>fourcc = DRM_FORMAT_P010, colormodel = yuv\<rparr>)]"

definition table :: "decls \<Rightarrow> 64 word \<rightharpoonup> table_entry" where
  "table D = map_of (map (\<lambda>(name, entry). (FORMAT_VALUE D name, entry)) table_entries)"

record private_handle_t =
  alloc_format :: "64 word"

definition drm_fourcc_from_handle :: "decls \<Rightarrow> private_handle_t \<Rightarrow> drm_format" where
  "drm_fourcc_from_handle D hnd =
     (let unmasked_format = alloc_format hnd;
          internal_format = get_internal_format_from_gralloc_format D unmasked_format
      in case table D internal_format of
           None \<Rightarrow> DRM_FORMAT_INVALID
         | Some entry \<Rightarrow>
             (let afbc = is_format_afbc D unmasked_format
              in if afbc \<and> internal_format = FORMAT_VALUE D MALI_GRALLOC_FORMAT_INTERNAL_RGB_565
                 then DRM_FORMAT_BGR565
                 else fourcc entry))"

subsection \<open>Auxiliary definitions\<close>

text \<open>
  Rounding up to a multiple in unbounded arithmetic, as the spec words alignment: the
  least multiple of \<open>a\<close> that is not below \<open>x\<close>.
\<close>

definition round_up :: "int \<Rightarrow> int \<Rightarrow> int" where
  "round_up x a = (x + a - 1) div a * a"

text \<open>
  The value \<^verbatim>\<open>alloc_type->afrc\<close> holds in the fixed-rate branch of \<^verbatim>\<open>get_alloc_type\<close>
  when the loop over the planes starts.
\<close>

definition afrc_start :: "decls \<Rightarrow> 64 word \<Rightarrow> afrc_t \<Rightarrow> afrc_t" where
  "afrc_start D format_ext a =
     a\<lparr>paging_tile_width := (if flag format_ext (INTFMT_AFRC_ROT_LAYOUT D) then 8 else 16),
       paging_tile_height := (if flag format_ext (INTFMT_AFRC_ROT_LAYOUT D) then 8 else 4),
       rgba_luma_coding_unit_bytes :=
         afrc_coding_unit_bytes D format_ext (INTFMT_AFRC_RGBA_CODING_UNIT_BYTES_SHIFT D),
       rgba_luma_plane_alignment :=
         fst (afrc_plane_alignment_requirement
                (afrc_coding_unit_bytes D format_ext (INTFMT_AFRC_RGBA_CODING_UNIT_BYTES_SHIFT D))),
       chroma_coding_unit_bytes :=
         afrc_coding_unit_bytes D format_ext (INTFMT_AFRC_CHROMA_CODING_UNIT_BYTES_SHIFT D),
       chroma_plane_alignment :=
         fst (afrc_plane_alignment_requirement
                (afrc_coding_unit_bytes D format_ext
                   (INTFMT_AFRC_CHROMA_CODING_UNIT_BYTES_SHIFT D)))\<rparr>"

text \<open>
  The loop of \<^verbatim>\<open>calc_allocation_size\<close> cut after its first \<open>k\<close> iterations, and the
  offset at which an iteration places its plane: the running size, aligned first in the
  fixed-rate case.
\<close>

definition calc_init :: "int \<Rightarrow> plane_info_t list \<Rightarrow> calc_state" where
  "calc_init pstride0 pinfo0 =
     \<lparr>pixel_stride = pstride0, alloc_size = 0,
      plane_info = pinfo0[0 := (pinfo0 ! 0)\<lparr>offset := 0\<rparr>],
      plane_sizes = [], asserts_hold = True\<rparr>"

definition calc_prefix ::
  "decls \<Rightarrow> int \<Rightarrow> int \<Rightarrow> alloc_type_t \<Rightarrow> format_info_t \<Rightarrow> bool \<Rightarrow> bool
   \<Rightarrow> int \<Rightarrow> plane_info_t list \<Rightarrow> nat \<Rightarrow> calc_state" where
  "calc_prefix D w h alloc_type format has_cpu_usage has_hw_usage pstride0 pinfo0 k =
     fold (calc_plane D w h alloc_type format has_cpu_usage has_hw_usage) [0..<k]
       (calc_init pstride0 pinfo0)"

definition plane_start :: "alloc_type_t \<Rightarrow> nat \<Rightarrow> int \<Rightarrow> int" where
  "plane_start alloc_type plane sz =
     (if is_afrc alloc_type
      then GRALLOC_ALIGN u64 sz
             (u32 (if plane = 0 then rgba_luma_plane_alignment (afrc alloc_type)
                   else chroma_plane_alignment (afrc alloc_type)))
      else sz)"

text \<open>
  The alignment of a block-compressed plane in the spec's words: the superblock width
  scaled by the headers-per-tile factor when tiled headers are active, at least 4
  superblocks when padding is requested on a non-YUV format; the superblock height
  scaled by the same factor, at least 16 for wide blocks without tiled headers; each
  at least the format's tile size. \<open>subsampled\<close> is the dimension the alignment pass
  starts from: rounded up to the format's granularity and, beyond plane 0, divided by
  the sub-sampling factor.
\<close>

definition headers_per_tile :: "format_info_t \<Rightarrow> alloc_type_t \<Rightarrow> nat \<Rightarrow> int" where
  "headers_per_tile format t plane =
     (if is_tiled t then (if bpp_afbc format ! plane > 32 then 4 else 8) else 1)"

definition afbc_width_alignment :: "format_info_t \<Rightarrow> alloc_type_t \<Rightarrow> nat \<Rightarrow> int" where
  "afbc_width_alignment format t plane =
     (let sb_width = width (get_afbc_sb_size t plane);
          scaled = headers_per_tile format t plane * sb_width;
          padded = (if is_padded t \<and> \<not> is_yuv format then max scaled (4 * sb_width)
                    else scaled)
      in max padded (tile_size format))"

definition afbc_height_alignment :: "format_info_t \<Rightarrow> alloc_type_t \<Rightarrow> nat \<Rightarrow> int" where
  "afbc_height_alignment format t plane =
     (let sb_height = height (get_afbc_sb_size t plane);
          scaled = headers_per_tile format t plane * sb_height;
          wide = (if primary_type t = AFBC_WIDEBLK \<and> \<not> is_tiled t then max scaled 16
                  else scaled)
      in max wide (tile_size format))"

definition subsampled :: "int \<Rightarrow> int \<Rightarrow> int \<Rightarrow> nat \<Rightarrow> int" where
  "subsampled x align sub plane =
     (if plane > 0 then round_up x align div sub else round_up x align)"

subsection \<open>An instance of the external declarations\<close>

text \<open>
  To run the functions on concrete requests the parameter \<open>D\<close> needs a value. The
  instance below is one possible content of the absent headers: one bit per encoding
  flag above bit 32, a two-bit coding-unit field per plane group decoding to 16, 24, 32
  (and 40 for the fourth code), the Android usage masks, a three-row format table, and
  format selection and dimension adjustment that leave the request as it is. The general
  theorems do not depend on it.
\<close>

fun example_format_value :: "format_name \<Rightarrow> 64 word" where
  "example_format_value MALI_GRALLOC_FORMAT_INTERNAL_UNDEFINED = 0"
| "example_format_value MALI_GRALLOC_FORMAT_INTERNAL_RGBA_8888 = 1"
| "example_format_value MALI_GRALLOC_FORMAT_INTERNAL_RGBX_8888 = 2"
| "example_format_value MALI_GRALLOC_FORMAT_INTERNAL_RGB_888 = 3"
| "example_format_value MALI_GRALLOC_FORMAT_INTERNAL_RGB_565 = 4"
| "example_format_value MALI_GRALLOC_FORMAT_INTERNAL_BGRA_8888 = 5"
| "example_format_value MALI_GRALLOC_FORMAT_INTERNAL_RGBA_16161616 = 22"
| "example_format_value MALI_GRALLOC_FORMAT_INTERNAL_RAW16 = 32"
| "example_format_value MALI_GRALLOC_FORMAT_INTERNAL_BLOB = 33"
| "example_format_value MALI_GRALLOC_FORMAT_INTERNAL_RGBA_1010102 = 43"
| "example_format_value HAL_PIXEL_FORMAT_YCBCR_P010 = 54"
| "example_format_value MALI_GRALLOC_FORMAT_INTERNAL_NV12 = 256"
| "example_format_value MALI_GRALLOC_FORMAT_INTERNAL_NV21 = 257"
| "example_format_value MALI_GRALLOC_FORMAT_INTERNAL_NV16 = 258"
| "example_format_value MALI_GRALLOC_FORMAT_INTERNAL_NV15 = 259"
| "example_format_value MALI_GRALLOC_FORMAT_INTERNAL_YV12 = 260"
| "example_format_value MALI_GRALLOC_FORMAT_INTERNAL_YU12 = 261"
| "example_format_value MALI_GRALLOC_FORMAT_INTERNAL_Y0L2 = 262"
| "example_format_value MALI_GRALLOC_FORMAT_INTERNAL_Y210 = 263"
| "example_format_value MALI_GRALLOC_FORMAT_INTERNAL_P010 = 264"
| "example_format_value MALI_GRALLOC_FORMAT_INTERNAL_P210 = 265"
| "example_format_value MALI_GRALLOC_FORMAT_INTERNAL_Y410 = 266"
| "example_format_value MALI_GRALLOC_FORMAT_INTERNAL_YUV444 = 267"
| "example_format_value MALI_GRALLOC_FORMAT_INTERNAL_Q410 = 268"
| "example_format_value MALI_GRALLOC_FORMAT_INTERNAL_Q401 = 269"
| "example_format_value MALI_GRALLOC_FORMAT_INTERNAL_YUV422_8BIT = 270"
| "example_format_value MALI_GRALLOC_FORMAT_INTERNAL_YUV420_8BIT_I = 271"
| "example_format_value MALI_GRALLOC_FORMAT_INTERNAL_YUV420_10BIT_I = 272"
| "example_format_value MALI_GRALLOC_FORMAT_INTERNAL_RGBA_10101010 = 273"

text \<open>A single-plane 32-bit RGBA row, a two-plane 4:2:0 row and a three-plane 4:2:0 row.\<close>

definition example_rgba :: format_info_t where
  "example_rgba =
     \<lparr>format_id = 1, npln = 1, ncmp = [4, 0, 0], bpp_afbc = [32, 0, 0], bpp = [32, 0, 0],
      hsub = 1, vsub = 1, align_w = 1, align_h = 1, align_w_cpu = 1, tile_size = 1,
      is_yuv = False, fmt_afbc = True, fmt_afrc = True, fmt_linear = True,
      fmt_block_linear = True\<rparr>"

definition example_nv12 :: format_info_t where
  "example_nv12 =
     \<lparr>format_id = 256, npln = 2, ncmp = [1, 2, 0], bpp_afbc = [8, 16, 0], bpp = [8, 16, 0],
      hsub = 2, vsub = 2, align_w = 2, align_h = 2, align_w_cpu = 1, tile_size = 1,
      is_yuv = True, fmt_afbc = True, fmt_afrc = True, fmt_linear = True,
      fmt_block_linear = True\<rparr>"

definition example_yu12 :: format_info_t where
  "example_yu12 =
     \<lparr>format_id = 261, npln = 3, ncmp = [1, 1, 1], bpp_afbc = [8, 8, 8], bpp = [8, 8, 8],
      hsub = 2, vsub = 2, align_w = 2, align_h = 2, align_w_cpu = 1, tile_size = 1,
      is_yuv = True, fmt_afbc = True, fmt_afrc = True, fmt_linear = True,
      fmt_block_linear = False\<rparr>"

definition example_decls :: decls where
  "example_decls =
     \<lparr>is_format_afbc = (\<lambda>x. x AND 0x100000000 \<noteq> 0),
      is_format_afrc = (\<lambda>x. x AND 0x40000000000 \<noteq> 0),
      is_format_block_linear = (\<lambda>x. x AND 0x1000000000000 \<noteq> 0),
      INTFMT_AFBC_YUV_TRANSFORM = 0x8000000000,
      INTFMT_AFBC_WIDEBLK = 0x400000000,
      INTFMT_AFBC_EXTRAWIDEBLK = 0x1000000000,
      INTFMT_AFBC_TILED_HEADERS = 0x800000000,
      INTFMT_AFBC_DOUBLE_BODY = 0x2000000000,
      USAGE_AFBC_PADDING = 0x40000000,
      INTFMT_AFRC_ROT_LAYOUT = 0x80000000000,
      INTFMT_AFRC_RGBA_CODING_UNIT_BYTES_SHIFT = 44,
      INTFMT_AFRC_CHROMA_CODING_UNIT_BYTES_SHIFT = 46,
      INTFMT_AFRC_CODING_UNIT_BYTES_MASK = 3,
      INTFMT_AFRC_CODING_UNIT_BYTES_UNWRAP = (\<lambda>x. 16 + 8 * uint x),
      INTFMT_FMT_MASK = 0xFFFFFFFF,
      INTFMT_EXT_MASK = 0xFFFFFFFF00000000,
      USAGE_SW_READ_MASK = 0xF,
      USAGE_SW_WRITE_MASK = 0xF0,
      USAGE_PRIVATE_MASK = 0xF0000000,
      FORMAT_VALUE = example_format_value,
      get_internal_format_from_gralloc_format = (\<lambda>x. x AND 0xFFFFFFFF),
      MAX_PLANES = 3,
      formats = [example_rgba, example_nv12, example_yu12],
      get_format_index = (\<lambda>x. if x = 1 then 0 else if x = 256 then 1
                               else if x = 261 then 2 else - 1),
      mali_gralloc_select_format = (\<lambda>hal_format format_type usage. hal_format),
      mali_gralloc_adjust_dimensions = (\<lambda>alloc_format usage w h. (w, h))\<rparr>"

text \<open>Three zeroed \<^verbatim>\<open>plane_info_t\<close> entries, as a fresh descriptor holds them.\<close>

definition example_plane_info :: "plane_info_t list" where
  "example_plane_info =
     replicate 3 \<lparr>offset = 0, byte_stride = 0, alloc_width = 0, alloc_height = 0\<rparr>"

text \<open>A request: dimensions, requested format, usage and layer count.\<close>

definition example_descriptor ::
  "int \<Rightarrow> int \<Rightarrow> 64 word \<Rightarrow> 64 word \<Rightarrow> int \<Rightarrow> buffer_descriptor_t" where
  "example_descriptor w h fmt usage layers =
     \<lparr>bd_width = w, bd_height = h, bd_hal_format = fmt, bd_format_type = 0,
      bd_producer_usage = usage, bd_consumer_usage = 0, bd_layer_count = layers,
      bd_alloc_format = 0, bd_pixel_stride = 0, bd_size = 0,
      bd_plane_info = example_plane_info\<rparr>"

text \<open>The two-plane example format, uncompressed, 640 by 480, with CPU and hardware usage.\<close>

definition example_linear_nv12 :: calc_state where
  "example_linear_nv12 =
     calc_allocation_size example_decls 640 480
       ((alloc_type_zero example_decls)\<lparr>is_multi_plane := True\<rparr>)
       example_nv12 True True 0 example_plane_info"

text \<open>A wide-block allocation type without tiled headers.\<close>

definition example_wide_untiled :: alloc_type_t where
  "example_wide_untiled = (alloc_type_zero example_decls)\<lparr>primary_type := AFBC_WIDEBLK\<rparr>"

section \<open>Properties\<close>

subsection \<open>Auxiliary facts\<close>

lemma flag_OR: "flag x (a OR b) = (flag x a \<or> flag x b)"
  by (auto simp: flag_def bit.conj_disj_distrib or_eq_0_iff)

lemma replicate_3: "replicate 3 x = [x, x, x]"
  by (simp add: numeral_3_eq_3)

lemmas get_alloc_type_eval =
  get_alloc_type_def get_alloc_type_afbc_def get_alloc_type_afrc_def Let_def flag_def
  afrc_coding_unit_bytes_def afrc_plane_alignment_requirement_def alloc_type_zero_def
  replicate_3 upt_rec

lemmas derive_eval =
  mali_gralloc_derive_format_and_size_def derive_size_def validate_format_def is_afbc_def is_afrc_def
  is_block_linear_def example_descriptor_def

lemmas struct_eval =
  calc_allocation_size_def calc_plane_def get_pixel_w_h_def afbc_pixel_align_def
  get_afbc_sb_size_def calc_byte_stride_def calc_body_size_def calc_header_size_def
  afbc_buffer_align_def update_yv12_stride_def layer_size_def
  is_afbc_def is_afrc_def is_block_linear_def Let_def upt_rec
  example_plane_info_def example_rgba_def example_nv12_def example_yu12_def replicate_3
  alloc_type_zero_def

lemmas arith_eval = max2_def max3_def GRALLOC_ALIGN_def u32_def s32_def u64_def

lemma round_up_props:
  assumes "0 < a"
  shows "a dvd round_up x a" and "x \<le> round_up x a" and "round_up x a < x + a"
proof -
  show "a dvd round_up x a" by (simp add: round_up_def)
  have eq: "round_up x a = (x + a - 1) - (x + a - 1) mod a"
    by (simp add: round_up_def minus_mod_eq_div_mult)
  have "0 \<le> (x + a - 1) mod a" "(x + a - 1) mod a < a"
    using assms by simp_all
  with eq show "x \<le> round_up x a" "round_up x a < x + a" by linarith+
qed

lemma round_up_least:
  assumes "0 < a" and "a dvd y" and "x \<le> y"
  shows "round_up x a \<le> y"
proof -
  from assms(2) obtain k where y: "y = a * k" ..
  have "(x + a - 1) div a \<le> ((a - 1) + a * k) div a"
    using assms(1,3) y by (intro zdiv_mono1) simp_all
  also have "\<dots> = k + (a - 1) div a"
    using assms(1) by (subst div_mult_self2) simp_all
  also have "(a - 1) div a = 0"
    using assms(1) by (simp add: div_pos_pos_trivial)
  finally have "(x + a - 1) div a \<le> k" by simp
  with assms(1) have "(x + a - 1) div a * a \<le> k * a"
    by (simp add: mult_right_mono)
  then show ?thesis by (simp add: round_up_def y mult.commute)
qed

lemma sdiv_nonneg: "0 \<le> k \<Longrightarrow> 0 < l \<Longrightarrow> k sdiv l = k div (l::int)"
  by (cases "k = 0") (simp_all add: signed_divide_int_def sgn_if)

lemma GRALLOC_ALIGN_mod:
  assumes "0 \<le> v" and "0 < b" and "v + b \<le> 2 ^ n" and "b < 2 ^ n"
  shows "GRALLOC_ALIGN (\<lambda>x. x mod 2 ^ n) v b = round_up v b"
proof -
  let ?m = "2 ^ n :: int"
  have v: "v mod ?m = v" and b: "b mod ?m = b"
    using assms by (simp_all add: mod_pos_pos_trivial)
  have "((v + b) mod ?m - 1) mod ?m = (v + b - 1) mod ?m"
    by (simp add: mod_diff_left_eq)
  also have "\<dots> = v + b - 1"
    using assms by (simp add: mod_pos_pos_trivial)
  finally have s: "((v + b) mod ?m - 1) mod ?m = v + b - 1" .
  have d: "(v + b - 1) sdiv b = (v + b - 1) div b"
    using assms by (simp add: sdiv_nonneg)
  have "0 \<le> round_up v b" "round_up v b < v + b"
    using round_up_props [OF assms(2), of v] assms(1) by linarith+
  then have r: "round_up v b mod ?m = round_up v b"
    using assms(3) by (simp add: mod_pos_pos_trivial)
  show ?thesis
    unfolding GRALLOC_ALIGN_def v b s d using r by (simp add: round_up_def)
qed

lemma GRALLOC_ALIGN_u32:
  "0 \<le> v \<Longrightarrow> 0 < b \<Longrightarrow> v + b \<le> 2 ^ 32 \<Longrightarrow> b < 2 ^ 32 \<Longrightarrow>
     GRALLOC_ALIGN u32 v b = round_up v b"
  using GRALLOC_ALIGN_mod [of v b 32] by (simp add: u32_def [abs_def])

lemma GRALLOC_ALIGN_u64:
  "0 \<le> v \<Longrightarrow> 0 < b \<Longrightarrow> v + b \<le> 2 ^ 64 \<Longrightarrow> b < 2 ^ 64 \<Longrightarrow>
     GRALLOC_ALIGN u64 v b = round_up v b"
  using GRALLOC_ALIGN_mod [of v b 64] by (simp add: u64_def [abs_def])

lemma get_afbc_sb_size_cases:
  assumes "is_afbc t"
  shows "get_afbc_sb_size t plane = \<lparr>width = 16, height = 16\<rparr>
         \<or> get_afbc_sb_size t plane = \<lparr>width = 32, height = 8\<rparr>
         \<or> get_afbc_sb_size t plane = \<lparr>width = 64, height = 4\<rparr>"
  using assms by (auto simp add: get_afbc_sb_size_def is_afbc_def)

lemma afbc_pixel_align_spec:
  assumes "is_afbc t" and "0 \<le> tile_size format"
  shows "max3 1 (fst (afbc_pixel_align format t plane (get_afbc_sb_size t plane)))
              (tile_size format) = afbc_width_alignment format t plane"
    and "max3 1 (snd (afbc_pixel_align format t plane (get_afbc_sb_size t plane)))
              (tile_size format) = afbc_height_alignment format t plane"
  using get_afbc_sb_size_cases [OF assms(1), of plane] assms(2)
  by (auto simp add: afbc_pixel_align_def afbc_width_alignment_def afbc_height_alignment_def
        headers_per_tile_def max2_def max3_def Let_def)

lemma afbc_alignment_bounds:
  assumes "is_afbc t" and "0 \<le> tile_size format" and "tile_size format < 65536"
  shows "0 < afbc_width_alignment format t plane" "afbc_width_alignment format t plane < 65536"
        "0 < afbc_height_alignment format t plane" "afbc_height_alignment format t plane < 65536"
  using get_afbc_sb_size_cases [OF assms(1), of plane] assms(2,3)
  by (auto simp add: afbc_width_alignment_def afbc_height_alignment_def
        headers_per_tile_def Let_def)

lemma u32_id: "0 \<le> x \<Longrightarrow> x < 2 ^ 32 \<Longrightarrow> u32 x = x"
  by (simp add: u32_def)

lemma round_up_range:
  assumes "0 < a" and "0 \<le> x"
  shows "0 \<le> round_up x a" and "round_up x a < x + a"
  using round_up_props [OF assms(1), of x] assms(2) by linarith+

text \<open>The first half of \<^verbatim>\<open>get_pixel_w_h\<close>, in exact arithmetic.\<close>

lemma subsample_step:
  assumes "0 \<le> x" and "x < 2 ^ 31" and "0 < al" and "al < 256"
      and "plane > 0 \<longrightarrow> 0 < sub \<and> sub < 256"
  shows "(if plane > 0 then GRALLOC_ALIGN u32 x al div u32 sub else GRALLOC_ALIGN u32 x al)
           = subsampled x al sub plane"
    and "0 \<le> subsampled x al sub plane"
    and "subsampled x al sub plane < 2 ^ 31 + 256"
proof -
  have al: "GRALLOC_ALIGN u32 x al = round_up x al"
    using assms by (intro GRALLOC_ALIGN_u32) simp_all
  have r: "0 \<le> round_up x al" "round_up x al < x + al"
    using round_up_range [OF assms(3,1)] .
  have "u32 sub = sub" if "plane > 0"
    using that assms(5) by (simp add: u32_def)
  then show "(if plane > 0 then GRALLOC_ALIGN u32 x al div u32 sub else GRALLOC_ALIGN u32 x al)
           = subsampled x al sub plane"
    by (simp add: al subsampled_def)
  show "0 \<le> subsampled x al sub plane"
    using r assms(5) by (simp add: subsampled_def pos_imp_zdiv_nonneg_iff)
  have "round_up x al div sub \<le> round_up x al" if "0 < sub"
    using that r(1) zdiv_mono2 [of "round_up x al" 1 sub] by simp
  with r assms(2,4,5) show "subsampled x al sub plane < 2 ^ 31 + 256"
    by (auto simp add: subsampled_def)
qed

subsection \<open>Encoding selection\<close>

text \<open>
  Claim C3. For every format and every dimension, an encoding-flags value that requests
  block-compression with the extra-wide flag set and the tiled-headers flag clear makes
  \<^verbatim>\<open>get_alloc_type\<close> fail with \<open>InvalidEncodingCombination\<close>, whatever the format row,
  the usage and the incoming \<^verbatim>\<open>alloc_type\<close>; and the entry point, for any request
  (any dimensions) whose selected format carries these flags, returns an error and no
  layout: \<open>UnrecognizedFormat\<close> if the format is rejected before selection,
  \<open>InvalidEncodingCombination\<close> otherwise.
\<close>

theorem extra_wide_without_tiled_headers_fails:
  assumes "is_format_afbc D format_ext"
      and "flag format_ext (INTFMT_AFBC_EXTRAWIDEBLK D)"
      and "\<not> flag format_ext (INTFMT_AFBC_TILED_HEADERS D)"
  shows "snd (get_alloc_type D format format_ext usage t0) = Inl InvalidEncodingCombination
         \<and> (mali_gralloc_select_format D (bd_hal_format d) (bd_format_type d)
               (bd_producer_usage d OR bd_consumer_usage d) AND INTFMT_EXT_MASK D = format_ext
             \<longrightarrow> mali_gralloc_derive_format_and_size D d = Inl UnrecognizedFormat
                 \<or> mali_gralloc_derive_format_and_size D d = Inl InvalidEncodingCombination)"
proof -
  have sel: "snd (get_alloc_type D f format_ext u t) = Inl InvalidEncodingCombination" for f u t
    using assms
    by (simp add: get_alloc_type_def get_alloc_type_afbc_def Let_def split: prod.splits)
  show ?thesis
    by (auto simp add: sel mali_gralloc_derive_format_and_size_def Let_def)
qed

theorem extra_wide_without_tiled_headers_fails_witness:
  "is_format_afbc example_decls 0x1100000000
   \<and> flag 0x1100000000 (INTFMT_AFBC_EXTRAWIDEBLK example_decls)
   \<and> \<not> flag 0x1100000000 (INTFMT_AFBC_TILED_HEADERS example_decls)
   \<and> snd (get_alloc_type example_decls example_rgba 0x1100000000 0
             (alloc_type_zero example_decls)) = Inl InvalidEncodingCombination
   \<and> (mali_gralloc_derive_format_and_size example_decls
         (example_descriptor 64 64 0x1100000001 0x100 1) = Inl UnrecognizedFormat
       \<or> mali_gralloc_derive_format_and_size example_decls
         (example_descriptor 64 64 0x1100000001 0x100 1) = Inl InvalidEncodingCombination)"
proof -
  have h1: "is_format_afbc example_decls 0x1100000000"
    by (simp add: example_decls_def)
  have h2: "flag 0x1100000000 (INTFMT_AFBC_EXTRAWIDEBLK example_decls)"
    by (simp add: example_decls_def flag_def)
  have h3: "\<not> flag 0x1100000000 (INTFMT_AFBC_TILED_HEADERS example_decls)"
    by (simp add: example_decls_def flag_def)
  have h4: "mali_gralloc_select_format example_decls
              (bd_hal_format (example_descriptor 64 64 0x1100000001 0x100 1))
              (bd_format_type (example_descriptor 64 64 0x1100000001 0x100 1))
              (bd_producer_usage (example_descriptor 64 64 0x1100000001 0x100 1)
               OR bd_consumer_usage (example_descriptor 64 64 0x1100000001 0x100 1))
            AND INTFMT_EXT_MASK example_decls = 0x1100000000"
    by (simp add: example_decls_def example_descriptor_def)
  show ?thesis
    using extra_wide_without_tiled_headers_fails [OF h1 h2 h3, of example_rgba 0
            "alloc_type_zero example_decls" "example_descriptor 64 64 0x1100000001 0x100 1"]
          h1 h2 h3 h4
    by blast
qed

text \<open>
  Claim C4 says that a block-compression request without tiled headers for a multi-plane
  format is downgraded to single-plane mode and that the computation goes on to produce
  a layout. It does not: for the two-plane example format with plain block-compression,
  64 by 64, the entry point returns an error.
\<close>

theorem multi_plane_afbc_without_tiled_headers_counterexample:
  "npln example_nv12 > 1
   \<and> is_format_afbc example_decls 0x100000000
   \<and> \<not> flag 0x100000000 (INTFMT_AFBC_TILED_HEADERS example_decls)
   \<and> mali_gralloc_select_format example_decls
        (bd_hal_format (example_descriptor 64 64 0x100000100 0x100 1))
        (bd_format_type (example_descriptor 64 64 0x100000100 0x100 1))
        (bd_producer_usage (example_descriptor 64 64 0x100000100 0x100 1)
         OR bd_consumer_usage (example_descriptor 64 64 0x100000100 0x100 1))
      = 0x100000100
   \<and> formats example_decls ! nat (get_format_index example_decls
        (0x100000100 AND INTFMT_FMT_MASK example_decls)) = example_nv12
   \<and> mali_gralloc_derive_format_and_size example_decls
        (example_descriptor 64 64 0x100000100 0x100 1) = Inl UnsupportedFormatForEncoding"
  by (simp add: get_alloc_type_eval derive_eval example_decls_def example_nv12_def)

text \<open>
  Claim C4, amended. For every multi-plane format and every block-compression request
  without the tiled-headers flag: unless the extra-wide flag is set, \<^verbatim>\<open>get_alloc_type\<close>
  succeeds, logs the warning and returns a block-compressed type with
  \<^verbatim>\<open>is_multi_plane\<close> false; whatever type it returns is then rejected by
  \<^verbatim>\<open>validate_format\<close> (a multi-plane format with a single-plane request), so the entry
  point returns an error and no layout for every request that selects this format with
  these flags.
\<close>

theorem multi_plane_afbc_without_tiled_headers_is_rejected:
  assumes "npln format > 1"
      and "is_format_afbc D format_ext"
      and "\<not> flag format_ext (INTFMT_AFBC_TILED_HEADERS D)"
  shows "(\<not> flag format_ext (INTFMT_AFBC_EXTRAWIDEBLK D) \<longrightarrow>
            (\<exists>log t. get_alloc_type D format format_ext usage t0 = (log, Inr t)
                \<and> is_afbc t \<and> \<not> is_multi_plane t
                \<and> LOGW_multi_plane_not_supported_without_tiling \<in> set log))
         \<and> (\<forall>t. snd (get_alloc_type D format format_ext usage t0) = Inr t \<longrightarrow>
                validate_format D format t d = Some UnsupportedFormatForEncoding)
         \<and> ((let u = bd_producer_usage d OR bd_consumer_usage d;
                  af = mali_gralloc_select_format D (bd_hal_format d) (bd_format_type d) u
              in af AND INTFMT_EXT_MASK D = format_ext
                 \<and> formats D ! nat (get_format_index D (af AND INTFMT_FMT_MASK D)) = format)
             \<longrightarrow> (\<exists>e. mali_gralloc_derive_format_and_size D d = Inl e))"
proof -
  have shape: "case get_alloc_type D format format_ext u t of
          (log, r) \<Rightarrow> (case r of
              Inl e \<Rightarrow> flag format_ext (INTFMT_AFBC_EXTRAWIDEBLK D)
            | Inr t' \<Rightarrow> is_afbc t' \<and> \<not> is_multi_plane t'
                        \<and> LOGW_multi_plane_not_supported_without_tiling \<in> set log)" for u t
    using assms
    by (auto simp add: get_alloc_type_def get_alloc_type_afbc_def Let_def is_afbc_def
             split: prod.splits)
  have sel: "\<exists>log t. get_alloc_type D format format_ext usage t0 = (log, Inr t)
                \<and> is_afbc t \<and> \<not> is_multi_plane t
                \<and> LOGW_multi_plane_not_supported_without_tiling \<in> set log"
    if "\<not> flag format_ext (INTFMT_AFBC_EXTRAWIDEBLK D)"
    using shape [of usage t0] that by (auto split: prod.splits sum.splits)
  have val: "validate_format D format t d' = Some UnsupportedFormatForEncoding"
    if "snd (get_alloc_type D format format_ext u t1) = Inr t" for t u t1 d'
  proof -
    from shape [of u t1] that have "is_afbc t \<and> \<not> is_multi_plane t"
      by (auto split: prod.splits sum.splits)
    with assms(1) show ?thesis by (simp add: validate_format_def)
  qed
  have der: "\<exists>e. mali_gralloc_derive_format_and_size D d = Inl e"
    if "let u = bd_producer_usage d OR bd_consumer_usage d;
            af = mali_gralloc_select_format D (bd_hal_format d) (bd_format_type d) u
        in af AND INTFMT_EXT_MASK D = format_ext
           \<and> formats D ! nat (get_format_index D (af AND INTFMT_FMT_MASK D)) = format"
    using that val [where d' = d]
    by (auto simp add: mali_gralloc_derive_format_and_size_def Let_def split: sum.splits)
  from sel val [of usage t0 _ d] der show ?thesis by blast
qed

theorem multi_plane_afbc_without_tiled_headers_is_rejected_witness:
  "npln example_nv12 > 1
   \<and> is_format_afbc example_decls 0x100000000
   \<and> \<not> flag 0x100000000 (INTFMT_AFBC_TILED_HEADERS example_decls)
   \<and> \<not> flag 0x100000000 (INTFMT_AFBC_EXTRAWIDEBLK example_decls)
   \<and> (\<exists>log t. get_alloc_type example_decls example_nv12 0x100000000 0x100
                  (alloc_type_zero example_decls) = (log, Inr t)
         \<and> is_afbc t \<and> \<not> is_multi_plane t
         \<and> LOGW_multi_plane_not_supported_without_tiling \<in> set log
         \<and> validate_format example_decls example_nv12 t
              (example_descriptor 64 64 0x100000100 0x100 1)
            = Some UnsupportedFormatForEncoding)
   \<and> (\<exists>e. mali_gralloc_derive_format_and_size example_decls
              (example_descriptor 64 64 0x100000100 0x100 1) = Inl e)"
proof -
  let ?d = "example_descriptor 64 64 0x100000100 0x100 1"
  have h1: "npln example_nv12 > 1" by (simp add: example_nv12_def)
  have h2: "is_format_afbc example_decls 0x100000000" by (simp add: example_decls_def)
  have h3: "\<not> flag 0x100000000 (INTFMT_AFBC_TILED_HEADERS example_decls)"
    by (simp add: example_decls_def flag_def)
  have h4: "\<not> flag 0x100000000 (INTFMT_AFBC_EXTRAWIDEBLK example_decls)"
    by (simp add: example_decls_def flag_def)
  have h5: "let u = bd_producer_usage ?d OR bd_consumer_usage ?d;
                af = mali_gralloc_select_format example_decls (bd_hal_format ?d)
                       (bd_format_type ?d) u
            in af AND INTFMT_EXT_MASK example_decls = 0x100000000
               \<and> formats example_decls ! nat (get_format_index example_decls
                    (af AND INTFMT_FMT_MASK example_decls)) = example_nv12"
    by (simp add: example_decls_def example_descriptor_def)
  note inst = multi_plane_afbc_without_tiled_headers_is_rejected [OF h1 h2 h3,
               where usage = "0x100" and ?t0.0 = "alloc_type_zero example_decls" and d = ?d]
  from inst h4 obtain log t where
    sel: "get_alloc_type example_decls example_nv12 0x100000000 0x100
            (alloc_type_zero example_decls) = (log, Inr t)"
    and props: "is_afbc t" "\<not> is_multi_plane t"
       "LOGW_multi_plane_not_supported_without_tiling \<in> set log"
    by blast
  from inst sel have val: "validate_format example_decls example_nv12 t ?d
            = Some UnsupportedFormatForEncoding"
    by simp
  from inst h5 have der: "\<exists>e. mali_gralloc_derive_format_and_size example_decls ?d = Inl e"
    by blast
  from h1 h2 h3 h4 sel props val der show ?thesis by blast
qed

lemma afrc_clump_loop_keeps:
  "afrc_clump_loop format planes a = (log, Inr a') \<Longrightarrow>
     paging_tile_width a' = paging_tile_width a
     \<and> paging_tile_height a' = paging_tile_height a
     \<and> rgba_luma_coding_unit_bytes a' = rgba_luma_coding_unit_bytes a
     \<and> rgba_luma_plane_alignment a' = rgba_luma_plane_alignment a
     \<and> chroma_coding_unit_bytes a' = chroma_coding_unit_bytes a
     \<and> chroma_plane_alignment a' = chroma_plane_alignment a
     \<and> length (clump_width a') = length (clump_width a)
     \<and> length (clump_height a') = length (clump_height a)"
proof (induction planes arbitrary: a)
  case Nil
  then show ?case by simp
next
  case (Cons plane planes)
  from Cons.prems show ?case
    by (auto split: if_splits dest!: Cons.IH)
qed

lemma afrc_clump_loop_untouched:
  "afrc_clump_loop format planes a = (log, Inr a') \<Longrightarrow> q \<notin> set planes \<Longrightarrow>
     clump_width a' ! q = clump_width a ! q \<and> clump_height a' ! q = clump_height a ! q"
proof (induction planes arbitrary: a)
  case Nil
  then show ?case by simp
next
  case (Cons plane planes)
  from Cons.prems show ?case
    by (auto split: if_splits dest!: Cons.IH)
qed

lemma afrc_clump_loop_clumps:
  "afrc_clump_loop format planes a = (log, Inr a') \<Longrightarrow> distinct planes \<Longrightarrow> p \<in> set planes \<Longrightarrow>
   p < length (clump_width a) \<Longrightarrow> p < length (clump_height a) \<Longrightarrow>
     (ncmp format ! p = 1 \<and> clump_width a' ! p = paging_tile_width a
        \<and> clump_height a' ! p = paging_tile_height a)
     \<or> (ncmp format ! p = 2 \<and> clump_width a' ! p = 8 \<and> clump_height a' ! p = 4)
     \<or> ((ncmp format ! p = 3 \<or> ncmp format ! p = 4)
          \<and> clump_width a' ! p = 4 \<and> clump_height a' ! p = 4)"
proof (induction planes arbitrary: a)
  case Nil
  then show ?case by simp
next
  case (Cons plane planes)
  show ?case
  proof (cases "p = plane")
    case True
    with Cons.prems have notin: "p \<notin> set planes" by simp
    from Cons.prems(1) True Cons.prems(4,5) notin show ?thesis
      by (auto split: if_splits dest!: afrc_clump_loop_untouched [where q = p])
  next
    case False
    with Cons.prems have "p \<in> set planes" "distinct planes" by simp_all
    with Cons.prems(1,4,5) show ?thesis
      by (auto split: if_splits dest!: Cons.IH [where a = "a\<lparr>clump_width := _, clump_height := _\<rparr>"])
  qed
qed

lemma afrc_clump_loop_fails:
  "p \<in> set planes \<Longrightarrow> ncmp format ! p \<notin> {1, 2, 3, 4} \<Longrightarrow>
     \<exists>log. afrc_clump_loop format planes a = (log, Inl InvalidComponentCount)"
proof (induction planes arbitrary: a)
  case Nil
  then show ?case by simp
next
  case (Cons plane planes)
  then show ?case by (cases "p = plane") auto
qed

lemma afrc_clump_loop_error:
  "afrc_clump_loop format planes a = (log, Inl e) \<Longrightarrow> e = InvalidComponentCount"
  by (induction planes arbitrary: a) (auto split: if_splits)

lemma afrc_alignment_zero_iff:
  "fst (afrc_plane_alignment_requirement c) = 0 \<longleftrightarrow> c \<notin> {16, 24, 32}"
  by (simp add: afrc_plane_alignment_requirement_def)



lemma apar_cases:
  "afrc_plane_alignment_requirement c =
     (if c = 16 then (1024, []) else if c = 24 then (512, []) else if c = 32 then (2048, [])
      else (0, [LOGE_invalid_coding_unit_size]))"
  by (simp add: afrc_plane_alignment_requirement_def)

lemma get_alloc_type_afrc_unfold:
  "get_alloc_type_afrc D format format_ext t0 =
     (let luma = afrc_coding_unit_bytes D format_ext (INTFMT_AFRC_RGBA_CODING_UNIT_BYTES_SHIFT D);
          chroma = afrc_coding_unit_bytes D format_ext (INTFMT_AFRC_CHROMA_CODING_UNIT_BYTES_SHIFT D)
      in if fst (afrc_plane_alignment_requirement luma) = 0
         then (snd (afrc_plane_alignment_requirement luma), Inl InvalidCodingUnitSize)
         else if fst (afrc_plane_alignment_requirement chroma) = 0
         then (snd (afrc_plane_alignment_requirement luma)
                 @ snd (afrc_plane_alignment_requirement chroma), Inl InvalidCodingUnitSize)
         else (case afrc_clump_loop format [0..<npln format]
                      (afrc_start D format_ext (afrc t0)) of
                 (log3, r) \<Rightarrow>
                   (snd (afrc_plane_alignment_requirement luma)
                      @ snd (afrc_plane_alignment_requirement chroma) @ log3,
                    case r of Inl e \<Rightarrow> Inl e
                            | Inr a4 \<Rightarrow> Inr (t0\<lparr>primary_type := AFRC, afrc := a4\<rparr>))))"
  unfolding get_alloc_type_afrc_def afrc_start_def Let_def
  apply (simp only: split_beta)
  apply (simp split: sum.splits prod.splits)
  done


lemma get_alloc_type_afrc_bad:
  assumes "\<not> is_format_afbc D format_ext" and "is_format_afrc D format_ext"
      and "afrc_coding_unit_bytes D format_ext (INTFMT_AFRC_RGBA_CODING_UNIT_BYTES_SHIFT D)
             \<notin> {16, 24, 32}
           \<or> afrc_coding_unit_bytes D format_ext (INTFMT_AFRC_CHROMA_CODING_UNIT_BYTES_SHIFT D)
             \<notin> {16, 24, 32}"
  shows "snd (get_alloc_type D format format_ext usage t0) = Inl InvalidCodingUnitSize"
proof -
  have "fst (afrc_plane_alignment_requirement
             (afrc_coding_unit_bytes D format_ext (INTFMT_AFRC_RGBA_CODING_UNIT_BYTES_SHIFT D))) = 0
        \<or> fst (afrc_plane_alignment_requirement
             (afrc_coding_unit_bytes D format_ext (INTFMT_AFRC_CHROMA_CODING_UNIT_BYTES_SHIFT D))) = 0"
    using assms(3) by (simp add: afrc_alignment_zero_iff)
  then show ?thesis
    using assms(1,2)
    by (auto simp add: get_alloc_type_def get_alloc_type_afrc_unfold Let_def)
qed

lemma get_alloc_type_afrc_good:
  assumes "\<not> is_format_afbc D format_ext" and "is_format_afrc D format_ext"
      and "snd (get_alloc_type D format format_ext usage t0) = Inr t"
  shows "afrc_coding_unit_bytes D format_ext (INTFMT_AFRC_RGBA_CODING_UNIT_BYTES_SHIFT D)
             \<in> {16, 24, 32}
         \<and> afrc_coding_unit_bytes D format_ext (INTFMT_AFRC_CHROMA_CODING_UNIT_BYTES_SHIFT D)
             \<in> {16, 24, 32}
         \<and> is_afrc t
         \<and> (\<exists>log. afrc_clump_loop format [0..<npln format] (afrc_start D format_ext (afrc t0))
                    = (log, Inr (afrc t)))"
proof -
  have cu: "afrc_coding_unit_bytes D format_ext (INTFMT_AFRC_RGBA_CODING_UNIT_BYTES_SHIFT D)
             \<in> {16, 24, 32}
         \<and> afrc_coding_unit_bytes D format_ext (INTFMT_AFRC_CHROMA_CODING_UNIT_BYTES_SHIFT D)
             \<in> {16, 24, 32}"
    using get_alloc_type_afrc_bad [OF assms(1,2), of format usage t0] assms(3) by auto
  then have nz: "fst (afrc_plane_alignment_requirement
             (afrc_coding_unit_bytes D format_ext (INTFMT_AFRC_RGBA_CODING_UNIT_BYTES_SHIFT D))) \<noteq> 0"
       "fst (afrc_plane_alignment_requirement
             (afrc_coding_unit_bytes D format_ext (INTFMT_AFRC_CHROMA_CODING_UNIT_BYTES_SHIFT D))) \<noteq> 0"
    by (simp_all add: afrc_alignment_zero_iff)
  obtain log r where loop:
    "afrc_clump_loop format [0..<npln format] (afrc_start D format_ext (afrc t0)) = (log, r)"
    by (cases "afrc_clump_loop format [0..<npln format] (afrc_start D format_ext (afrc t0))")
  from assms loop nz have "r = Inr (afrc t) \<and> is_afrc t"
    by (cases r)
       (auto simp add: get_alloc_type_def get_alloc_type_afrc_unfold Let_def is_afrc_def)
  with cu loop show ?thesis by blast
qed

text \<open>
  Claim C5. For every fixed-rate-compressed request (the block-compressed test fails and
  the fixed-rate test holds), with \<open>luma\<close> and \<open>chroma\<close> the byte sizes decoded from
  the two coding-unit fields: if either is not one of 16, 24, 32, \<^verbatim>\<open>get_alloc_type\<close>
  fails with \<open>InvalidCodingUnitSize\<close>; and whenever it succeeds, both are among 16, 24,
  32, they are the coding-unit sizes stored in the result, and the plane alignments
  stored in the result (the ones \<^verbatim>\<open>calc_allocation_size\<close> aligns the running size to)
  are 1024, 512, 2048 for 16, 24, 32.
\<close>

theorem afrc_coding_unit_size_checked:
  assumes "\<not> is_format_afbc D format_ext" and "is_format_afrc D format_ext"
      and "luma = afrc_coding_unit_bytes D format_ext (INTFMT_AFRC_RGBA_CODING_UNIT_BYTES_SHIFT D)"
      and "chroma = afrc_coding_unit_bytes D format_ext
                      (INTFMT_AFRC_CHROMA_CODING_UNIT_BYTES_SHIFT D)"
  shows "(luma \<notin> {16, 24, 32} \<or> chroma \<notin> {16, 24, 32} \<longrightarrow>
            snd (get_alloc_type D format format_ext usage t0) = Inl InvalidCodingUnitSize)
         \<and> (\<forall>t. snd (get_alloc_type D format format_ext usage t0) = Inr t \<longrightarrow>
               luma \<in> {16, 24, 32} \<and> chroma \<in> {16, 24, 32}
               \<and> rgba_luma_coding_unit_bytes (afrc t) = luma
               \<and> chroma_coding_unit_bytes (afrc t) = chroma
               \<and> rgba_luma_plane_alignment (afrc t)
                   = (if luma = 16 then 1024 else if luma = 24 then 512 else 2048)
               \<and> chroma_plane_alignment (afrc t)
                   = (if chroma = 16 then 1024 else if chroma = 24 then 512 else 2048))"
proof -
  have bad: "snd (get_alloc_type D format format_ext usage t0) = Inl InvalidCodingUnitSize"
    if "luma \<notin> {16, 24, 32} \<or> chroma \<notin> {16, 24, 32}"
    using that get_alloc_type_afrc_bad [OF assms(1,2), of format usage t0]
    unfolding assms(3,4) by blast
  have good: "luma \<in> {16, 24, 32} \<and> chroma \<in> {16, 24, 32}
               \<and> rgba_luma_coding_unit_bytes (afrc t) = luma
               \<and> chroma_coding_unit_bytes (afrc t) = chroma
               \<and> rgba_luma_plane_alignment (afrc t)
                   = (if luma = 16 then 1024 else if luma = 24 then 512 else 2048)
               \<and> chroma_plane_alignment (afrc t)
                   = (if chroma = 16 then 1024 else if chroma = 24 then 512 else 2048)"
    if ok: "snd (get_alloc_type D format format_ext usage t0) = Inr t" for t
  proof -
    from get_alloc_type_afrc_good [OF assms(1,2) ok] obtain log where
      cu: "luma \<in> {16, 24, 32}" "chroma \<in> {16, 24, 32}"
      and loop: "afrc_clump_loop format [0..<npln format] (afrc_start D format_ext (afrc t0))
                   = (log, Inr (afrc t))"
      unfolding assms(3,4) by blast
    from afrc_clump_loop_keeps [OF loop] cu show ?thesis
      unfolding assms(3,4)
      by (auto simp add: afrc_start_def afrc_plane_alignment_requirement_def)
  qed
  from bad good show ?thesis by blast
qed

theorem afrc_coding_unit_size_checked_witness:
  "\<not> is_format_afbc example_decls 0x140000000000
   \<and> is_format_afrc example_decls 0x140000000000
   \<and> 24 = afrc_coding_unit_bytes example_decls 0x140000000000
             (INTFMT_AFRC_RGBA_CODING_UNIT_BYTES_SHIFT example_decls)
   \<and> 16 = afrc_coding_unit_bytes example_decls 0x140000000000
             (INTFMT_AFRC_CHROMA_CODING_UNIT_BYTES_SHIFT example_decls)
   \<and> (\<exists>t. snd (get_alloc_type example_decls example_nv12 0x140000000000 0
                  (alloc_type_zero example_decls)) = Inr t
            \<and> rgba_luma_coding_unit_bytes (afrc t) = 24
            \<and> rgba_luma_plane_alignment (afrc t) = 512
            \<and> chroma_coding_unit_bytes (afrc t) = 16
            \<and> chroma_plane_alignment (afrc t) = 1024)
   \<and> 40 = afrc_coding_unit_bytes example_decls 0x340000000000
             (INTFMT_AFRC_RGBA_CODING_UNIT_BYTES_SHIFT example_decls)
   \<and> snd (get_alloc_type example_decls example_nv12 0x340000000000 0
             (alloc_type_zero example_decls)) = Inl InvalidCodingUnitSize"
proof -
  have h1: "\<not> is_format_afbc example_decls 0x140000000000"
    and h2: "is_format_afrc example_decls 0x140000000000"
    and h3: "24 = afrc_coding_unit_bytes example_decls 0x140000000000
                    (INTFMT_AFRC_RGBA_CODING_UNIT_BYTES_SHIFT example_decls)"
    and h4: "16 = afrc_coding_unit_bytes example_decls 0x140000000000
                    (INTFMT_AFRC_CHROMA_CODING_UNIT_BYTES_SHIFT example_decls)"
    by (simp_all add: example_decls_def afrc_coding_unit_bytes_def)
  have g1: "\<not> is_format_afbc example_decls 0x340000000000"
    and g2: "is_format_afrc example_decls 0x340000000000"
    and g3: "40 = afrc_coding_unit_bytes example_decls 0x340000000000
                    (INTFMT_AFRC_RGBA_CODING_UNIT_BYTES_SHIFT example_decls)"
    and g4: "16 = afrc_coding_unit_bytes example_decls 0x340000000000
                    (INTFMT_AFRC_CHROMA_CODING_UNIT_BYTES_SHIFT example_decls)"
    by (simp_all add: example_decls_def afrc_coding_unit_bytes_def)
  have "\<exists>t. snd (get_alloc_type example_decls example_nv12 0x140000000000 0
                  (alloc_type_zero example_decls)) = Inr t"
    by (simp add: get_alloc_type_eval example_decls_def example_nv12_def)
  then obtain t where t: "snd (get_alloc_type example_decls example_nv12 0x140000000000 0
                  (alloc_type_zero example_decls)) = Inr t" ..
  from afrc_coding_unit_size_checked [OF h1 h2 h3 h4, of example_nv12 0
         "alloc_type_zero example_decls"] t
  have good: "rgba_luma_coding_unit_bytes (afrc t) = 24
            \<and> rgba_luma_plane_alignment (afrc t) = 512
            \<and> chroma_coding_unit_bytes (afrc t) = 16
            \<and> chroma_plane_alignment (afrc t) = 1024"
    by simp
  from afrc_coding_unit_size_checked [OF g1 g2 g3 g4, of example_nv12 0
         "alloc_type_zero example_decls"]
  have bad: "snd (get_alloc_type example_decls example_nv12 0x340000000000 0
             (alloc_type_zero example_decls)) = Inl InvalidCodingUnitSize"
    by simp
  from h1 h2 h3 h4 g3 t good bad show ?thesis by blast
qed

text \<open>
  Claim C6. For every fixed-rate-compressed request that succeeds, the paging tile is
  8 by 8 when the rotated-layout bit is set and 16 by 4 otherwise, and for every plane
  of the format (within the bounds of the clump arrays) the component count is 1, 2, 3
  or 4 and the clump is the paging tile for 1 component, 8 by 4 for 2 and 4 by 4 for 3
  or 4. If some plane of the format has any other component count, selection fails.
\<close>

theorem afrc_paging_tile_and_clumps:
  assumes "\<not> is_format_afbc D format_ext" and "is_format_afrc D format_ext"
  shows "(\<forall>t. snd (get_alloc_type D format format_ext usage t0) = Inr t \<longrightarrow>
            is_afrc t
            \<and> (paging_tile_width (afrc t), paging_tile_height (afrc t))
                = (if flag format_ext (INTFMT_AFRC_ROT_LAYOUT D) then (8, 8) else (16, 4))
            \<and> (\<forall>p < npln format.
                  p < length (clump_width (afrc t0)) \<and> p < length (clump_height (afrc t0)) \<longrightarrow>
                  ncmp format ! p \<in> {1, 2, 3, 4}
                  \<and> (clump_width (afrc t) ! p, clump_height (afrc t) ! p)
                      = (if ncmp format ! p = 1
                         then (paging_tile_width (afrc t), paging_tile_height (afrc t))
                         else if ncmp format ! p = 2 then (8, 4)
                         else (4, 4))))
         \<and> ((\<exists>p < npln format. ncmp format ! p \<notin> {1, 2, 3, 4}) \<longrightarrow>
              (\<exists>e. snd (get_alloc_type D format format_ext usage t0) = Inl e))"
proof -
  have good: "is_afrc t
            \<and> (paging_tile_width (afrc t), paging_tile_height (afrc t))
                = (if flag format_ext (INTFMT_AFRC_ROT_LAYOUT D) then (8, 8) else (16, 4))
            \<and> (\<forall>p < npln format.
                  p < length (clump_width (afrc t0)) \<and> p < length (clump_height (afrc t0)) \<longrightarrow>
                  ncmp format ! p \<in> {1, 2, 3, 4}
                  \<and> (clump_width (afrc t) ! p, clump_height (afrc t) ! p)
                      = (if ncmp format ! p = 1
                         then (paging_tile_width (afrc t), paging_tile_height (afrc t))
                         else if ncmp format ! p = 2 then (8, 4)
                         else (4, 4)))"
    if ok: "snd (get_alloc_type D format format_ext usage t0) = Inr t" for t
  proof -
    from get_alloc_type_afrc_good [OF assms ok] obtain log where
      kind: "is_afrc t"
      and loop: "afrc_clump_loop format [0..<npln format] (afrc_start D format_ext (afrc t0))
                   = (log, Inr (afrc t))"
      by blast
    note keep = afrc_clump_loop_keeps [OF loop]
    have tile: "(paging_tile_width (afrc t), paging_tile_height (afrc t))
                = (if flag format_ext (INTFMT_AFRC_ROT_LAYOUT D) then (8, 8) else (16, 4))"
      using keep by (simp add: afrc_start_def)
    have clump: "ncmp format ! p \<in> {1, 2, 3, 4}
                  \<and> (clump_width (afrc t) ! p, clump_height (afrc t) ! p)
                      = (if ncmp format ! p = 1
                         then (paging_tile_width (afrc t), paging_tile_height (afrc t))
                         else if ncmp format ! p = 2 then (8, 4)
                         else (4, 4))"
      if "p < npln format" "p < length (clump_width (afrc t0))"
         "p < length (clump_height (afrc t0))" for p
    proof -
      have "p \<in> set [0..<npln format]" using that by simp
      from afrc_clump_loop_clumps [OF loop _ this] that keep show ?thesis
        by (auto simp add: afrc_start_def)
    qed
    from kind tile clump show ?thesis by blast
  qed
  have bad: "\<exists>e. snd (get_alloc_type D format format_ext usage t0) = Inl e"
    if "\<exists>p < npln format. ncmp format ! p \<notin> {1, 2, 3, 4}"
  proof (cases "snd (get_alloc_type D format format_ext usage t0)")
    case (Inl e)
    then show ?thesis by blast
  next
    case (Inr t)
    from that obtain p where p: "p \<in> set [0..<npln format]" "ncmp format ! p \<notin> {1, 2, 3, 4}"
      by auto
    from get_alloc_type_afrc_good [OF assms Inr] obtain log where
      "afrc_clump_loop format [0..<npln format] (afrc_start D format_ext (afrc t0))
         = (log, Inr (afrc t))"
      by blast
    with afrc_clump_loop_fails [OF p, of "afrc_start D format_ext (afrc t0)"]
    show ?thesis by simp
  qed
  from good bad show ?thesis by blast
qed


theorem afrc_paging_tile_and_clumps_witness:
  "\<not> is_format_afbc example_decls 0x140000000000
   \<and> is_format_afrc example_decls 0x140000000000
   \<and> (\<exists>t. snd (get_alloc_type example_decls example_nv12 0x140000000000 0
                  (alloc_type_zero example_decls)) = Inr t
            \<and> paging_tile_width (afrc t) = 16 \<and> paging_tile_height (afrc t) = 4
            \<and> clump_width (afrc t) ! 0 = 16 \<and> clump_height (afrc t) ! 0 = 4
            \<and> clump_width (afrc t) ! 1 = 8 \<and> clump_height (afrc t) ! 1 = 4)
   \<and> (\<exists>e. snd (get_alloc_type example_decls (example_nv12\<lparr>ncmp := [1, 0, 0]\<rparr>)
                  0x140000000000 0 (alloc_type_zero example_decls)) = Inl e)"
proof -
  have h1: "\<not> is_format_afbc example_decls 0x140000000000"
    and h2: "is_format_afrc example_decls 0x140000000000"
    and h3: "\<not> flag 0x140000000000 (INTFMT_AFRC_ROT_LAYOUT example_decls)"
    by (simp_all add: example_decls_def flag_def)
  have "\<exists>t. snd (get_alloc_type example_decls example_nv12 0x140000000000 0
                  (alloc_type_zero example_decls)) = Inr t"
    by (simp add: get_alloc_type_eval example_decls_def example_nv12_def)
  then obtain t where t: "snd (get_alloc_type example_decls example_nv12 0x140000000000 0
                  (alloc_type_zero example_decls)) = Inr t" ..
  have fmt: "npln example_nv12 = 2" "ncmp example_nv12 ! 0 = 1" "ncmp example_nv12 ! 1 = 2"
    "length (clump_width (afrc (alloc_type_zero example_decls))) = 3"
    "length (clump_height (afrc (alloc_type_zero example_decls))) = 3"
    by (simp_all add: example_nv12_def alloc_type_zero_def example_decls_def)
  from afrc_paging_tile_and_clumps [OF h1 h2, of example_nv12 0 "alloc_type_zero example_decls"] t
  have all: "(paging_tile_width (afrc t), paging_tile_height (afrc t))
                = (if flag 0x140000000000 (INTFMT_AFRC_ROT_LAYOUT example_decls)
                   then (8, 8) else (16, 4))
            \<and> (\<forall>p < npln example_nv12.
                  p < length (clump_width (afrc (alloc_type_zero example_decls)))
                  \<and> p < length (clump_height (afrc (alloc_type_zero example_decls))) \<longrightarrow>
                  ncmp example_nv12 ! p \<in> {1, 2, 3, 4}
                  \<and> (clump_width (afrc t) ! p, clump_height (afrc t) ! p)
                      = (if ncmp example_nv12 ! p = 1
                         then (paging_tile_width (afrc t), paging_tile_height (afrc t))
                         else if ncmp example_nv12 ! p = 2 then (8, 4)
                         else (4, 4)))"
    by blast
  then have tile: "paging_tile_width (afrc t) = 16 \<and> paging_tile_height (afrc t) = 4"
    using h3 by simp
  from all have p0: "clump_width (afrc t) ! 0 = 16 \<and> clump_height (afrc t) ! 0 = 4"
    using fmt tile by (auto dest!: spec [where x = 0])
  from all have p1: "clump_width (afrc t) ! 1 = 8 \<and> clump_height (afrc t) ! 1 = 4"
    using fmt by (auto dest!: spec [where x = 1])
  have "\<exists>p < npln (example_nv12\<lparr>ncmp := [1, 0, 0]\<rparr>).
          ncmp (example_nv12\<lparr>ncmp := [1, 0, 0]\<rparr>) ! p \<notin> {1, 2, 3, 4}"
    by (rule exI [where x = 1]) (simp add: example_nv12_def)
  with afrc_paging_tile_and_clumps [OF h1 h2, of "example_nv12\<lparr>ncmp := [1, 0, 0]\<rparr>" 0
         "alloc_type_zero example_decls"]
  have bad: "\<exists>e. snd (get_alloc_type example_decls (example_nv12\<lparr>ncmp := [1, 0, 0]\<rparr>)
                  0x140000000000 0 (alloc_type_zero example_decls)) = Inl e"
    by blast
  from h1 h2 t tile p0 p1 bad show ?thesis by blast
qed



text \<open>
  Claim C10 says that frontbuffer double-buffering with wide or extra-wide blocks never
  makes selection fail. With both the wide and the extra-wide flag on a single-plane
  format it fails: the error is logged, and the next check returns false.
\<close>

theorem front_buffer_safe_with_wide_block_counterexample:
  "is_format_afbc example_decls 0x3D00000000
   \<and> flag 0x3D00000000 (INTFMT_AFBC_TILED_HEADERS example_decls)
   \<and> flag 0x3D00000000 (INTFMT_AFBC_DOUBLE_BODY example_decls)
   \<and> flag 0x3D00000000 (INTFMT_AFBC_WIDEBLK example_decls)
   \<and> flag 0x3D00000000 (INTFMT_AFBC_EXTRAWIDEBLK example_decls)
   \<and> get_alloc_type example_decls example_rgba 0x3D00000000 0 (alloc_type_zero example_decls)
      = ([LOGE_front_buffer_safe_with_wide_block,
          LOGE_multiplane_afbc_with_single_plane_format], Inl InvalidEncodingCombination)
   \<and> mali_gralloc_derive_format_and_size example_decls
        (example_descriptor 64 64 0x3D00000001 0 1) = Inl InvalidEncodingCombination"
  by (simp add: get_alloc_type_eval derive_eval example_decls_def example_rgba_def)

text \<open>
  Claim C10, amended. For a block-compression request with tiled headers, the
  double-body flag and the wide or the extra-wide flag, but not both of them on a
  single-plane format: \<^verbatim>\<open>get_alloc_type\<close> logs the front-buffer error and still
  succeeds, with \<^verbatim>\<open>is_frontbuffer_safe\<close> set; and the entry point produces a layout
  for every request that selects this format with these flags and passes
  \<^verbatim>\<open>validate_format\<close>.
\<close>

theorem front_buffer_safe_with_wide_block_is_logged_only:
  assumes "is_format_afbc D format_ext"
      and "flag format_ext (INTFMT_AFBC_TILED_HEADERS D)"
      and "flag format_ext (INTFMT_AFBC_DOUBLE_BODY D)"
      and "flag format_ext (INTFMT_AFBC_WIDEBLK D) \<or> flag format_ext (INTFMT_AFBC_EXTRAWIDEBLK D)"
      and "\<not> (npln format = 1 \<and> flag format_ext (INTFMT_AFBC_WIDEBLK D)
                \<and> flag format_ext (INTFMT_AFBC_EXTRAWIDEBLK D))"
  shows "\<exists>log t. get_alloc_type D format format_ext usage t0 = (log, Inr t)
           \<and> is_frontbuffer_safe t
           \<and> LOGE_front_buffer_safe_with_wide_block \<in> set log
           \<and> (\<forall>d. (let u = bd_producer_usage d OR bd_consumer_usage d;
                        af = mali_gralloc_select_format D (bd_hal_format d) (bd_format_type d) u
                    in u = usage \<and> t0 = alloc_type_zero D
                       \<and> af AND INTFMT_EXT_MASK D = format_ext
                       \<and> af \<noteq> FORMAT_VALUE D MALI_GRALLOC_FORMAT_INTERNAL_UNDEFINED
                       \<and> get_format_index D (af AND INTFMT_FMT_MASK D) \<noteq> - 1
                       \<and> formats D ! nat (get_format_index D (af AND INTFMT_FMT_MASK D)) = format
                       \<and> validate_format D format t d = None)
                 \<longrightarrow> (\<exists>d'. mali_gralloc_derive_format_and_size D d = Inr d'))"
proof -
  have "case get_alloc_type D format format_ext usage t0 of
          (log, r) \<Rightarrow> (case r of Inl e \<Rightarrow> False
                      | Inr t \<Rightarrow> is_frontbuffer_safe t
                                \<and> LOGE_front_buffer_safe_with_wide_block \<in> set log)"
    using assms
    by (auto simp add: get_alloc_type_def get_alloc_type_afbc_def Let_def flag_OR
             split: prod.splits)
  then obtain log t where sel: "get_alloc_type D format format_ext usage t0 = (log, Inr t)"
    and fb: "is_frontbuffer_safe t" and lg: "LOGE_front_buffer_safe_with_wide_block \<in> set log"
    by (auto split: prod.splits sum.splits)
  have "\<exists>d'. mali_gralloc_derive_format_and_size D d = Inr d'"
    if "let u = bd_producer_usage d OR bd_consumer_usage d;
            af = mali_gralloc_select_format D (bd_hal_format d) (bd_format_type d) u
        in u = usage \<and> t0 = alloc_type_zero D
           \<and> af AND INTFMT_EXT_MASK D = format_ext
           \<and> af \<noteq> FORMAT_VALUE D MALI_GRALLOC_FORMAT_INTERNAL_UNDEFINED
           \<and> get_format_index D (af AND INTFMT_FMT_MASK D) \<noteq> - 1
           \<and> formats D ! nat (get_format_index D (af AND INTFMT_FMT_MASK D)) = format
           \<and> validate_format D format t d = None" for d
    using that sel
    by (auto simp add: mali_gralloc_derive_format_and_size_def Let_def split: prod.splits)
  with sel fb lg show ?thesis by blast
qed

theorem front_buffer_safe_with_wide_block_is_logged_only_witness:
  "is_format_afbc example_decls 0x2D00000000
   \<and> flag 0x2D00000000 (INTFMT_AFBC_TILED_HEADERS example_decls)
   \<and> flag 0x2D00000000 (INTFMT_AFBC_DOUBLE_BODY example_decls)
   \<and> flag 0x2D00000000 (INTFMT_AFBC_WIDEBLK example_decls)
   \<and> \<not> flag 0x2D00000000 (INTFMT_AFBC_EXTRAWIDEBLK example_decls)
   \<and> (\<exists>log t. get_alloc_type example_decls example_rgba 0x2D00000000 0x100
                  (alloc_type_zero example_decls) = (log, Inr t)
         \<and> is_frontbuffer_safe t
         \<and> LOGE_front_buffer_safe_with_wide_block \<in> set log)
   \<and> (\<exists>d'. mali_gralloc_derive_format_and_size example_decls
               (example_descriptor 64 64 0x2D00000001 0x100 1) = Inr d')"
proof -
  let ?d = "example_descriptor 64 64 0x2D00000001 0x100 1"
  have h1: "is_format_afbc example_decls 0x2D00000000" by (simp add: example_decls_def)
  have h2: "flag 0x2D00000000 (INTFMT_AFBC_TILED_HEADERS example_decls)"
    and h3: "flag 0x2D00000000 (INTFMT_AFBC_DOUBLE_BODY example_decls)"
    and h4: "flag 0x2D00000000 (INTFMT_AFBC_WIDEBLK example_decls)"
    and h5: "\<not> flag 0x2D00000000 (INTFMT_AFBC_EXTRAWIDEBLK example_decls)"
    by (simp_all add: example_decls_def flag_def)
  from h4 have h4': "flag 0x2D00000000 (INTFMT_AFBC_WIDEBLK example_decls)
                     \<or> flag 0x2D00000000 (INTFMT_AFBC_EXTRAWIDEBLK example_decls)" ..
  from h5 have h6: "\<not> (npln example_rgba = 1
      \<and> flag 0x2D00000000 (INTFMT_AFBC_WIDEBLK example_decls)
      \<and> flag 0x2D00000000 (INTFMT_AFBC_EXTRAWIDEBLK example_decls))" by simp
  from front_buffer_safe_with_wide_block_is_logged_only [OF h1 h2 h3 h4' h6,
         where usage = "0x100" and ?t0.0 = "alloc_type_zero example_decls"]
  obtain log t where
    sel: "get_alloc_type example_decls example_rgba 0x2D00000000 0x100
            (alloc_type_zero example_decls) = (log, Inr t)"
    and props: "is_frontbuffer_safe t" "LOGE_front_buffer_safe_with_wide_block \<in> set log"
    and lay: "\<forall>d. (let u = bd_producer_usage d OR bd_consumer_usage d;
                      af = mali_gralloc_select_format example_decls (bd_hal_format d)
                             (bd_format_type d) u
                  in u = 0x100 \<and> alloc_type_zero example_decls = alloc_type_zero example_decls
                     \<and> af AND INTFMT_EXT_MASK example_decls = 0x2D00000000
                     \<and> af \<noteq> FORMAT_VALUE example_decls MALI_GRALLOC_FORMAT_INTERNAL_UNDEFINED
                     \<and> get_format_index example_decls (af AND INTFMT_FMT_MASK example_decls) \<noteq> - 1
                     \<and> formats example_decls ! nat (get_format_index example_decls
                          (af AND INTFMT_FMT_MASK example_decls)) = example_rgba
                     \<and> validate_format example_decls example_rgba t d = None)
               \<longrightarrow> (\<exists>d'. mali_gralloc_derive_format_and_size example_decls d = Inr d')"
    by blast
  have "snd (get_alloc_type example_decls example_rgba 0x2D00000000 0x100
            (alloc_type_zero example_decls))
        = Inr ((alloc_type_zero example_decls)\<lparr>primary_type := AFBC_WIDEBLK, is_tiled := True,
                 is_frontbuffer_safe := True\<rparr>)"
    by (simp add: get_alloc_type_eval example_decls_def example_rgba_def)
  with sel have t: "t = (alloc_type_zero example_decls)\<lparr>primary_type := AFBC_WIDEBLK,
                          is_tiled := True, is_frontbuffer_safe := True\<rparr>"
    by simp
  have "let u = bd_producer_usage ?d OR bd_consumer_usage ?d;
            af = mali_gralloc_select_format example_decls (bd_hal_format ?d)
                   (bd_format_type ?d) u
        in u = 0x100 \<and> alloc_type_zero example_decls = alloc_type_zero example_decls
           \<and> af AND INTFMT_EXT_MASK example_decls = 0x2D00000000
           \<and> af \<noteq> FORMAT_VALUE example_decls MALI_GRALLOC_FORMAT_INTERNAL_UNDEFINED
           \<and> get_format_index example_decls (af AND INTFMT_FMT_MASK example_decls) \<noteq> - 1
           \<and> formats example_decls ! nat (get_format_index example_decls
                (af AND INTFMT_FMT_MASK example_decls)) = example_rgba
           \<and> validate_format example_decls example_rgba t ?d = None"
    unfolding t
    by (simp add: derive_eval example_decls_def example_rgba_def alloc_type_zero_def)
  with lay have "\<exists>d'. mali_gralloc_derive_format_and_size example_decls ?d = Inr d'"
    by blast
  with h1 h2 h3 h4 h5 sel props show ?thesis by blast
qed

subsection \<open>Plane dimensions\<close>

text \<open>
  Claim C2 says that a block-compressed plane is aligned to its superblock whether or
  not CPU usage is requested. With CPU usage the block-compressed branch of
  \<^verbatim>\<open>get_pixel_w_h\<close> is not taken: a 100 by 50 request for the single-plane example
  format with wide blocks (32 by 8) keeps the dimensions 100 by 50.
\<close>

theorem afbc_plane_dimensions_counterexample:
  "is_afbc example_wide_untiled
   \<and> get_afbc_sb_size example_wide_untiled 0 = \<lparr>width = 32, height = 8\<rparr>
   \<and> get_pixel_w_h 100 50 example_rgba example_wide_untiled 0 True = (100, 50)
   \<and> \<not> (32::int) dvd 100 \<and> \<not> (8::int) dvd 50"
  by (simp add: example_wide_untiled_def struct_eval; simp add: arith_eval;
      simp add: signed_divide_int_def)

text \<open>
  Claim C2, amended. For every block-compressed allocation type and every plane, with
  dimensions below \<open>2 ^ 31\<close> and the format fields within the ranges of their types:
  without CPU usage \<^verbatim>\<open>get_pixel_w_h\<close> rounds the sub-sampled width up to a multiple of
  the width alignment and the sub-sampled height up to a multiple of the height
  alignment defined above (superblock dimensions scaled by the headers-per-tile
  factor, 4 superblocks wide for padding on a non-YUV format, 16 high for wide blocks
  without tiled headers, and not below the format's tile size), so that for a tile size
  of at most 4 both are multiples of the plane's superblock dimensions. With CPU usage
  it rounds the width up to the format's CPU alignment and tile size and the height to
  the tile size only.
\<close>

theorem afbc_plane_dimensions:
  assumes "is_afbc t"
      and "0 \<le> w" and "w < 2 ^ 31" and "0 \<le> h" and "h < 2 ^ 31"
      and "0 < align_w format" and "align_w format < 256"
      and "0 < align_h format" and "align_h format < 256"
      and "plane > 0 \<longrightarrow> 0 < hsub format \<and> hsub format < 256
                        \<and> 0 < vsub format \<and> vsub format < 256"
      and "0 \<le> tile_size format" and "tile_size format < 65536"
      and "0 \<le> align_w_cpu format" and "align_w_cpu format < 256"
      and "w2 = subsampled w (align_w format) (hsub format) plane"
      and "h2 = subsampled h (align_h format) (vsub format) plane"
  shows "(\<not> has_cpu_usage \<longrightarrow>
            get_pixel_w_h w h format t plane has_cpu_usage
              = (round_up w2 (afbc_width_alignment format t plane),
                 round_up h2 (afbc_height_alignment format t plane))
            \<and> afbc_width_alignment format t plane
                 dvd fst (get_pixel_w_h w h format t plane has_cpu_usage)
            \<and> afbc_height_alignment format t plane
                 dvd snd (get_pixel_w_h w h format t plane has_cpu_usage)
            \<and> (tile_size format \<le> 4 \<longrightarrow>
                  width (get_afbc_sb_size t plane)
                    dvd fst (get_pixel_w_h w h format t plane has_cpu_usage)
                  \<and> height (get_afbc_sb_size t plane)
                    dvd snd (get_pixel_w_h w h format t plane has_cpu_usage)))
         \<and> (has_cpu_usage \<longrightarrow>
              get_pixel_w_h w h format t plane has_cpu_usage
                = (round_up w2 (max 1 (max (align_w_cpu format) (tile_size format))),
                   round_up h2 (max 1 (tile_size format))))"
proof -
  from assms(10) have hsub_ok: "plane > 0 \<longrightarrow> 0 < hsub format \<and> hsub format < 256"
    and vsub_ok: "plane > 0 \<longrightarrow> 0 < vsub format \<and> vsub format < 256"
    by simp_all
  note ws = subsample_step [OF assms(2,3,6,7) hsub_ok, folded assms(15)]
  note hs = subsample_step [OF assms(4,5,8,9) vsub_ok, folded assms(16)]
  have ws1: "(if plane > 0 then GRALLOC_ALIGN u32 w (align_w format) div u32 (hsub format)
              else GRALLOC_ALIGN u32 w (align_w format)) = w2"
    and hs1: "(if plane > 0 then GRALLOC_ALIGN u32 h (align_h format) div u32 (vsub format)
              else GRALLOC_ALIGN u32 h (align_h format)) = h2"
    using ws(1) hs(1) assms(10) by simp_all
  have fin: "GRALLOC_ALIGN u32 x a = round_up x a"
    if "0 \<le> x" "x < 2 ^ 31 + 256" "0 < a" "a < 65536" for x a
    using that by (intro GRALLOC_ALIGN_u32) simp_all
  have afbc: "get_pixel_w_h w h format t plane False
              = (round_up w2 (afbc_width_alignment format t plane),
                 round_up h2 (afbc_height_alignment format t plane))"
  proof -
    note b = afbc_alignment_bounds [OF assms(1,11,12), of plane]
    note e = afbc_pixel_align_spec [OF assms(1,11), of plane]
    have "get_pixel_w_h w h format t plane False
          = (GRALLOC_ALIGN u32 w2 (afbc_width_alignment format t plane),
             GRALLOC_ALIGN u32 h2 (afbc_height_alignment format t plane))"
      unfolding get_pixel_w_h_def Let_def ws1 hs1
      using assms(1) e by (simp add: split_beta)
    then show ?thesis
      using ws(2,3) hs(2,3) b by (simp add: fin)
  qed
  have dvds: "width (get_afbc_sb_size t plane) dvd afbc_width_alignment format t plane
              \<and> height (get_afbc_sb_size t plane) dvd afbc_height_alignment format t plane"
    if "tile_size format \<le> 4"
    using get_afbc_sb_size_cases [OF assms(1), of plane] that assms(11)
    by (auto simp add: afbc_width_alignment_def afbc_height_alignment_def
          headers_per_tile_def Let_def max_def)
  have wd: "afbc_width_alignment format t plane
              dvd round_up w2 (afbc_width_alignment format t plane)"
    and hd: "afbc_height_alignment format t plane
              dvd round_up h2 (afbc_height_alignment format t plane)"
    using afbc_alignment_bounds [OF assms(1,11,12), of plane]
    by (simp_all add: round_up_props)
  have cpu: "get_pixel_w_h w h format t plane True
                = (round_up w2 (max 1 (max (align_w_cpu format) (tile_size format))),
                   round_up h2 (max 1 (tile_size format)))"
  proof -
    have m: "max3 1 (align_w_cpu format) (tile_size format)
               = max 1 (max (align_w_cpu format) (tile_size format))"
            "max3 1 1 (tile_size format) = max 1 (tile_size format)"
      by (auto simp add: max3_def max2_def)
    have "get_pixel_w_h w h format t plane True
          = (GRALLOC_ALIGN u32 w2 (max 1 (max (align_w_cpu format) (tile_size format))),
             GRALLOC_ALIGN u32 h2 (max 1 (tile_size format)))"
      unfolding get_pixel_w_h_def Let_def ws1 hs1 by (simp add: m)
    then show ?thesis
      using ws(2,3) hs(2,3) assms(11-14) by (simp add: fin)
  qed
  show ?thesis
    using afbc cpu wd hd dvds by (cases has_cpu_usage) (auto intro: dvd_trans)
qed

theorem afbc_plane_dimensions_witness:
  "is_afbc example_wide_untiled
   \<and> (0::int) \<le> 100 \<and> (100::int) < 2 ^ 31 \<and> (0::int) \<le> 50 \<and> (50::int) < 2 ^ 31
   \<and> 0 < align_w example_rgba \<and> align_w example_rgba < 256
   \<and> 0 < align_h example_rgba \<and> align_h example_rgba < 256
   \<and> 0 \<le> tile_size example_rgba \<and> tile_size example_rgba < 65536
   \<and> 0 \<le> align_w_cpu example_rgba \<and> align_w_cpu example_rgba < 256
   \<and> 100 = subsampled 100 (align_w example_rgba) (hsub example_rgba) 0
   \<and> 50 = subsampled 50 (align_h example_rgba) (vsub example_rgba) 0
   \<and> afbc_width_alignment example_rgba example_wide_untiled 0 = 32
   \<and> afbc_height_alignment example_rgba example_wide_untiled 0 = 16
   \<and> get_pixel_w_h 100 50 example_rgba example_wide_untiled 0 False = (128, 64)
   \<and> get_pixel_w_h 100 50 example_rgba example_wide_untiled 0 True = (100, 50)"
proof -
  have h1: "is_afbc example_wide_untiled"
    by (simp add: example_wide_untiled_def is_afbc_def)
  have h2: "(0::int) \<le> 100" "(100::int) < 2 ^ 31" "(0::int) \<le> 50" "(50::int) < 2 ^ 31"
    by simp_all
  have h3: "0 < align_w example_rgba" "align_w example_rgba < 256"
    "0 < align_h example_rgba" "align_h example_rgba < 256"
    by (simp_all add: example_rgba_def)
  have h4: "(0::nat) > 0 \<longrightarrow> 0 < hsub example_rgba \<and> hsub example_rgba < 256
                        \<and> 0 < vsub example_rgba \<and> vsub example_rgba < 256"
    by simp
  have h5: "0 \<le> tile_size example_rgba" "tile_size example_rgba < 65536"
    "0 \<le> align_w_cpu example_rgba" "align_w_cpu example_rgba < 256"
    by (simp_all add: example_rgba_def)
  have h6: "100 = subsampled 100 (align_w example_rgba) (hsub example_rgba) 0"
    "50 = subsampled 50 (align_h example_rgba) (vsub example_rgba) 0"
    by (simp_all add: subsampled_def round_up_def example_rgba_def)
  have aw: "afbc_width_alignment example_rgba example_wide_untiled 0 = 32"
    and ah: "afbc_height_alignment example_rgba example_wide_untiled 0 = 16"
    by (simp_all add: afbc_width_alignment_def afbc_height_alignment_def headers_per_tile_def
          get_afbc_sb_size_def is_afbc_def example_wide_untiled_def alloc_type_zero_def
          example_rgba_def Let_def)
  have cpu: "max 1 (max (align_w_cpu example_rgba) (tile_size example_rgba)) = 1"
    "max 1 (tile_size example_rgba) = 1"
    by (simp_all add: example_rgba_def)
  from afbc_plane_dimensions [OF h1 h2 h3 h4 h5 h6, of False]
  have r1: "get_pixel_w_h 100 50 example_rgba example_wide_untiled 0 False = (128, 64)"
    by (simp add: aw ah round_up_def)
  from afbc_plane_dimensions [OF h1 h2 h3 h4 h5 h6, of True]
  have r2: "get_pixel_w_h 100 50 example_rgba example_wide_untiled 0 True = (100, 50)"
    by (simp add: cpu round_up_def)
  from h1 h2 h3 h5 h6 aw ah r1 r2 show ?thesis by simp
qed

subsection \<open>Size calculation\<close>

lemma calc_allocation_size_prefix:
  "calc_allocation_size D w h t f c hw ps pi = calc_prefix D w h t f c hw ps pi (npln f)"
  by (simp add: calc_allocation_size_def calc_prefix_def calc_init_def)

lemma calc_prefix_0: "calc_prefix D w h t f c hw ps pi 0 = calc_init ps pi"
  by (simp add: calc_prefix_def)

lemma calc_prefix_Suc:
  "calc_prefix D w h t f c hw ps pi (Suc k)
     = calc_plane D w h t f c hw k (calc_prefix D w h t f c hw ps pi k)"
  by (simp add: calc_prefix_def)

lemma calc_plane_step:
  "\<exists>b hd. plane_sizes (calc_plane D w h t f c hw p st) = plane_sizes st @ [(b, hd)]
     \<and> alloc_size (calc_plane D w h t f c hw p st)
         = u64 (plane_start t p (alloc_size st) + u64 (s32 (b + hd)))
     \<and> length (plane_info (calc_plane D w h t f c hw p st)) = length (plane_info st)
     \<and> (\<forall>q. q \<noteq> p \<longrightarrow> plane_info (calc_plane D w h t f c hw p st) ! q = plane_info st ! q)
     \<and> (p < length (plane_info st) \<longrightarrow>
          offset (plane_info (calc_plane D w h t f c hw p st) ! p)
            = (if p > 0 then u32 (plane_start t p (alloc_size st))
               else offset (plane_info st ! p)))"
  by (simp add: calc_plane_def Let_def split_beta plane_start_def)


lemma calc_prefix_lengths:
  "length (plane_sizes (calc_prefix D w h t f c hw ps pi k)) = k
   \<and> length (plane_info (calc_prefix D w h t f c hw ps pi k)) = length pi"
proof (induction k)
  case 0
  show ?case by (simp add: calc_prefix_0 calc_init_def)
next
  case (Suc k)
  from calc_plane_step [of D w h t f c hw k "calc_prefix D w h t f c hw ps pi k"] Suc
  show ?case by (auto simp add: calc_prefix_Suc)
qed

lemma calc_prefix_persist:
  assumes "k \<le> m" and "p < k"
  shows "plane_sizes (calc_prefix D w h t f c hw ps pi m) ! p
           = plane_sizes (calc_prefix D w h t f c hw ps pi k) ! p
         \<and> plane_info (calc_prefix D w h t f c hw ps pi m) ! p
           = plane_info (calc_prefix D w h t f c hw ps pi k) ! p"
  using assms(1)
proof (induction m)
  case 0
  then show ?case by simp
next
  case (Suc m)
  show ?case
  proof (cases "k = Suc m")
    case True
    then show ?thesis by simp
  next
    case False
    with Suc.prems have km: "k \<le> m" by simp
    with assms(2) have pm: "p < m" by simp
    from calc_plane_step [of D w h t f c hw m "calc_prefix D w h t f c hw ps pi m"]
    obtain b hd where
      sz: "plane_sizes (calc_prefix D w h t f c hw ps pi (Suc m))
             = plane_sizes (calc_prefix D w h t f c hw ps pi m) @ [(b, hd)]"
      and inf: "\<forall>q. q \<noteq> m \<longrightarrow> plane_info (calc_prefix D w h t f c hw ps pi (Suc m)) ! q
                  = plane_info (calc_prefix D w h t f c hw ps pi m) ! q"
      by (auto simp add: calc_prefix_Suc)
    from sz pm have "plane_sizes (calc_prefix D w h t f c hw ps pi (Suc m)) ! p
                       = plane_sizes (calc_prefix D w h t f c hw ps pi m) ! p"
      by (simp add: nth_append calc_prefix_lengths)
    moreover from inf pm have "plane_info (calc_prefix D w h t f c hw ps pi (Suc m)) ! p
                       = plane_info (calc_prefix D w h t f c hw ps pi m) ! p"
      by simp
    ultimately show ?thesis using Suc.IH [OF km] by simp
  qed
qed

lemma calc_prefix_offset_0:
  assumes "0 < length pi"
  shows "offset (plane_info (calc_prefix D w h t f c hw ps pi k) ! 0) = 0"
proof (induction k)
  case 0
  from assms show ?case by (simp add: calc_prefix_0 calc_init_def)
next
  case (Suc k)
  from calc_plane_step [of D w h t f c hw k "calc_prefix D w h t f c hw ps pi k"] Suc assms
  show ?case
    by (cases "k = 0") (auto simp add: calc_prefix_Suc calc_prefix_lengths)
qed

text \<open>What iteration \<open>k\<close> does, read off the state after it.\<close>

lemma calc_prefix_step:
  assumes "k < length pi"
  shows "alloc_size (calc_prefix D w h t f c hw ps pi (Suc k))
           = u64 (plane_start t k (alloc_size (calc_prefix D w h t f c hw ps pi k))
                  + u64 (s32 (fst (plane_sizes (calc_prefix D w h t f c hw ps pi (Suc k)) ! k)
                              + snd (plane_sizes (calc_prefix D w h t f c hw ps pi (Suc k)) ! k))))
         \<and> offset (plane_info (calc_prefix D w h t f c hw ps pi (Suc k)) ! k)
           = (if k > 0 then u32 (plane_start t k (alloc_size (calc_prefix D w h t f c hw ps pi k)))
              else 0)"
proof -
  let ?S = "calc_prefix D w h t f c hw ps pi"
  from assms have pos: "0 < length pi" by (cases pi) simp_all
  from calc_plane_step [of D w h t f c hw k "?S k"] obtain b hd where
    sz: "plane_sizes (?S (Suc k)) = plane_sizes (?S k) @ [(b, hd)]"
    and al: "alloc_size (?S (Suc k)) = u64 (plane_start t k (alloc_size (?S k)) + u64 (s32 (b + hd)))"
    and off: "k < length (plane_info (?S k)) \<longrightarrow>
          offset (plane_info (?S (Suc k)) ! k)
            = (if k > 0 then u32 (plane_start t k (alloc_size (?S k)))
               else offset (plane_info (?S k) ! k))"
    by (auto simp add: calc_prefix_Suc)
  from sz have "plane_sizes (?S (Suc k)) ! k = (b, hd)"
    by (simp add: nth_append calc_prefix_lengths)
  with al off assms calc_prefix_offset_0 [OF pos, of D w h t f c hw ps k]
  show ?thesis by (auto simp add: calc_prefix_lengths)
qed


lemma plane_start_range:
  assumes "0 \<le> sz" and "sz \<le> 2 ^ 63"
      and "is_afrc t \<longrightarrow> 0 < u32 (rgba_luma_plane_alignment (afrc t))
                        \<and> 0 < u32 (chroma_plane_alignment (afrc t))"
  shows "sz \<le> plane_start t p sz \<and> plane_start t p sz < sz + 2 ^ 32"
proof (cases "is_afrc t")
  case False
  then show ?thesis by (simp add: plane_start_def)
next
  case True
  define a where "a = u32 (if p = 0 then rgba_luma_plane_alignment (afrc t)
                           else chroma_plane_alignment (afrc t))"
  have a: "0 < a" "a < 2 ^ 32"
    using True assms(3) by (auto simp add: a_def u32_def)
  have "GRALLOC_ALIGN u64 sz a = round_up sz a"
    using assms(1,2) a by (intro GRALLOC_ALIGN_u64) simp_all
  moreover have "sz \<le> round_up sz a" "round_up sz a < sz + a"
    using round_up_props [OF a(1), of sz] by simp_all
  ultimately show ?thesis
    using True a by (simp add: plane_start_def a_def [symmetric])
qed

lemma s32_id: "- (2 ^ 31) \<le> x \<Longrightarrow> x < 2 ^ 31 \<Longrightarrow> s32 x = x"
  by (simp add: s32_def)

lemma u64_id: "0 \<le> x \<Longrightarrow> x < 2 ^ 64 \<Longrightarrow> u64 x = x"
  by (simp add: u64_def)

text \<open>The running size as a sequence: no step wraps while the contributions are small.\<close>

lemma layout_sequence:
  fixes A Z c :: "nat \<Rightarrow> int"
  assumes "A 0 = 0" and "n < 256"
      and step: "\<forall>k<n. A (Suc k) = u64 (Z k + u64 (s32 (c k)))"
      and start: "\<forall>k<n. 0 \<le> A k \<and> A k \<le> 2 ^ 63 \<longrightarrow> A k \<le> Z k \<and> Z k < A k + 2 ^ 32"
      and c: "\<forall>k<n. 0 \<le> c k \<and> c k < 2 ^ 31"
  shows "(\<forall>k\<le>n. 0 \<le> A k \<and> A k \<le> int k * 2 ^ 33)
         \<and> (\<forall>k<n. A (Suc k) = Z k + c k \<and> A k \<le> Z k)"
proof -
  have next_size: "A (Suc k) = Z k + c k \<and> A k \<le> Z k \<and> Z k < A k + 2 ^ 32"
    if kn: "k < n" and ih: "0 \<le> A k" "A k \<le> int k * 2 ^ 33" for k
  proof -
    from kn assms(2) have "int k < 256" by simp
    with ih have small: "A k \<le> 2 ^ 63" by simp
    from start kn ih(1) small have z: "A k \<le> Z k" "Z k < A k + 2 ^ 32" by simp_all
    from c kn have ck: "0 \<le> c k" "c k < 2 ^ 31" by simp_all
    then have "u64 (s32 (c k)) = c k" by (simp add: s32_id u64_id)
    moreover have "0 \<le> Z k + c k" "Z k + c k < 2 ^ 64"
      using z ck ih small by simp_all
    ultimately have "A (Suc k) = Z k + c k"
      using step kn by (simp add: u64_id)
    with z show ?thesis by simp
  qed
  have bound: "0 \<le> A k \<and> A k \<le> int k * 2 ^ 33" if "k \<le> n" for k
    using that
  proof (induction k)
    case 0
    then show ?case by (simp add: assms(1))
  next
    case (Suc k)
    then have kn: "k < n" and ih: "0 \<le> A k" "A k \<le> int k * 2 ^ 33" by simp_all
    from c kn have "0 \<le> c k" "c k < 2 ^ 31" by simp_all
    with next_size [OF kn ih] ih show ?case by simp
  qed
  have "A (Suc k) = Z k + c k \<and> A k \<le> Z k" if "k < n" for k
    using next_size [OF that] bound [of k] that by simp
  with bound show ?thesis by blast
qed

lemma layout_sequence_mono:
  fixes A Z c :: "nat \<Rightarrow> int"
  assumes "\<forall>k<n. A (Suc k) = Z k + c k \<and> A k \<le> Z k"
      and "\<forall>k<n. 0 \<le> c k"
      and "p \<le> q" and "q \<le> n"
  shows "A p \<le> A q"
  using assms(3,4)
proof (induction q)
  case 0
  then show ?case by simp
next
  case (Suc q)
  show ?case
  proof (cases "p = Suc q")
    case True
    then show ?thesis by simp
  next
    case False
    with Suc.prems have pq: "p \<le> q" and qn: "q < n" by simp_all
    from assms(1,2) qn have "A q \<le> A (Suc q)" by fastforce
    with Suc.IH [OF pq] qn show ?thesis by simp
  qed
qed

lemma example_afbc_cpu_derive: "mali_gralloc_derive_format_and_size example_decls (example_descriptor 1 1 0x1900000100 3 1)
     = Inr ((example_descriptor 1 1 0x1900000100 3 1)
         \<lparr>bd_alloc_format := 0x1900000100,
          bd_plane_info :=
            [\<lparr>offset = 0, byte_stride = 2, alloc_width = 2, alloc_height = 2\<rparr>,
             \<lparr>offset = 0, byte_stride = 2, alloc_width = 1, alloc_height = 1\<rparr>,
             \<lparr>offset = 0, byte_stride = 0, alloc_width = 0, alloc_height = 0\<rparr>],
          bd_size := 0\<rparr>)"
  by (simp add: get_alloc_type_eval derive_eval example_decls_def example_nv12_def;
      simp add: struct_eval; simp add: arith_eval; simp add: signed_divide_int_def)

lemma example_afbc_cpu_eval: "calc_allocation_size example_decls 1 1
            ((alloc_type_zero example_decls)
               \<lparr>primary_type := AFBC_EXTRAWIDEBLK, is_multi_plane := True, is_tiled := True\<rparr>)
            example_nv12 True False 0 example_plane_info =
  \<lparr>pixel_stride = 0, alloc_size = 0,
    plane_info =
      [\<lparr>offset = 0, byte_stride = 2, alloc_width = 2, alloc_height = 2\<rparr>,
       \<lparr>offset = 0, byte_stride = 2, alloc_width = 1, alloc_height = 1\<rparr>,
       \<lparr>offset = 0, byte_stride = 0, alloc_width = 0, alloc_height = 0\<rparr>],
    plane_sizes = [(0, 0), (0, 0)], asserts_hold = True\<rparr>"
  by (simp add: struct_eval example_decls_def; simp add: arith_eval; simp add: signed_divide_int_def)

lemma example_wrap_eval: "calc_allocation_size example_decls 65536 65536
        ((alloc_type_zero example_decls)\<lparr>is_multi_plane := True\<rparr>)
        example_nv12 False False 0 example_plane_info
      = \<lparr>pixel_stride = 0, alloc_size = 18446744071562067968,
         plane_info =
           [\<lparr>offset = 0, byte_stride = 65536, alloc_width = 65536, alloc_height = 65536\<rparr>,
            \<lparr>offset = 0, byte_stride = 65536, alloc_width = 32768, alloc_height = 32768\<rparr>,
            \<lparr>offset = 0, byte_stride = 0, alloc_width = 0, alloc_height = 0\<rparr>],
         plane_sizes = [(0, 0), (- 2147483648, 0)], asserts_hold = True\<rparr>"
  by (simp add: struct_eval example_decls_def; simp add: arith_eval lcm_u32_def;
      simp add: signed_divide_int_def)

text \<open>
  Claim C1 says that the plane offsets of every computed layout are strictly
  increasing and the plane ranges disjoint. A 1 by 1 request for the two-plane example
  format, block-compressed (tiled headers, extra-wide) and with CPU usage, passes
  selection and validation and gets both planes at offset 0 and the total size 0: with
  CPU usage the planes are not aligned to the superblock, the superblock count
  \<open>(2 * 2) / 256\<close> is 0, and so are body and header. And for a 65536 by 65536
  uncompressed request the 32-bit body size of plane 0 wraps to 0: plane 1 starts at
  offset 0 as well, its body size is negative as an \<^verbatim>\<open>int\<close>, and the total is
  \<open>2 ^ 64 - 2 ^ 31\<close>.
\<close>

theorem calc_allocation_size_layout_counterexample:
  "mali_gralloc_derive_format_and_size example_decls (example_descriptor 1 1 0x1900000100 3 1)
     = Inr ((example_descriptor 1 1 0x1900000100 3 1)
         \<lparr>bd_alloc_format := 0x1900000100,
          bd_plane_info :=
            [\<lparr>offset = 0, byte_stride = 2, alloc_width = 2, alloc_height = 2\<rparr>,
             \<lparr>offset = 0, byte_stride = 2, alloc_width = 1, alloc_height = 1\<rparr>,
             \<lparr>offset = 0, byte_stride = 0, alloc_width = 0, alloc_height = 0\<rparr>],
          bd_size := 0\<rparr>)
   \<and> npln example_nv12 = 2
   \<and> \<not> offset (plane_info (calc_allocation_size example_decls 1 1
            ((alloc_type_zero example_decls)
               \<lparr>primary_type := AFBC_EXTRAWIDEBLK, is_multi_plane := True, is_tiled := True\<rparr>)
            example_nv12 True False 0 example_plane_info) ! 0)
        < offset (plane_info (calc_allocation_size example_decls 1 1
            ((alloc_type_zero example_decls)
               \<lparr>primary_type := AFBC_EXTRAWIDEBLK, is_multi_plane := True, is_tiled := True\<rparr>)
            example_nv12 True False 0 example_plane_info) ! 1)
   \<and> calc_allocation_size example_decls 65536 65536
        ((alloc_type_zero example_decls)\<lparr>is_multi_plane := True\<rparr>)
        example_nv12 False False 0 example_plane_info
      = \<lparr>pixel_stride = 0, alloc_size = 18446744071562067968,
         plane_info =
           [\<lparr>offset = 0, byte_stride = 65536, alloc_width = 65536, alloc_height = 65536\<rparr>,
            \<lparr>offset = 0, byte_stride = 65536, alloc_width = 32768, alloc_height = 32768\<rparr>,
            \<lparr>offset = 0, byte_stride = 0, alloc_width = 0, alloc_height = 0\<rparr>],
         plane_sizes = [(0, 0), (- 2147483648, 0)], asserts_hold = True\<rparr>"
proof -
  have n: "npln example_nv12 = 2" by (simp add: example_nv12_def)
  show ?thesis
    by (simp add: example_afbc_cpu_derive example_afbc_cpu_eval example_wrap_eval n)
qed

text \<open>
  Claim C1, amended. For every format of up to 255 planes whose planes fit
  \<^verbatim>\<open>plane_info[]\<close>, every allocation type and all dimensions, \<^verbatim>\<open>calc_allocation_size\<close>
  computes a body and a header size for each plane and leaves plane 0 at offset 0.
  If no size wraps (each plane's body and header size is non-negative as an
  \<^verbatim>\<open>int\<close> and their sum is below \<open>2 ^ 31\<close>, the total is below \<open>2 ^ 32\<close>, and in the
  fixed-rate case the plane alignments are not 0), then: each plane's range
  \<open>[offset, offset + body + header)\<close> ends at or before the offset of every later
  plane, so the ranges are pairwise disjoint and the offsets non-decreasing; the offset
  of a plane whose body and header are not both empty is strictly below that of every
  later plane; every range lies within the total size; and the total size is at least
  the sum of the body sizes.
\<close>

theorem calc_allocation_size_layout:
  assumes st: "st = calc_allocation_size D w h t format has_cpu_usage has_hw_usage
                      pstride0 pinfo0"
      and len: "npln format \<le> length pinfo0" and small: "npln format < 256"
  shows "length (plane_sizes st) = npln format
         \<and> (0 < length pinfo0 \<longrightarrow> offset (plane_info st ! 0) = 0)
         \<and> ((is_afrc t \<longrightarrow> 0 < u32 (rgba_luma_plane_alignment (afrc t))
                            \<and> 0 < u32 (chroma_plane_alignment (afrc t)))
            \<and> (\<forall>p < npln format.
                   0 \<le> fst (plane_sizes st ! p) \<and> 0 \<le> snd (plane_sizes st ! p)
                   \<and> fst (plane_sizes st ! p) + snd (plane_sizes st ! p) < 2 ^ 31)
            \<and> alloc_size st < 2 ^ 32
            \<longrightarrow>
              (\<forall>p q. p < q \<and> q < npln format \<longrightarrow>
                  offset (plane_info st ! p) + fst (plane_sizes st ! p)
                    + snd (plane_sizes st ! p) \<le> offset (plane_info st ! q))
              \<and> (\<forall>p q. p < q \<and> q < npln format
                        \<and> 0 < fst (plane_sizes st ! p) + snd (plane_sizes st ! p) \<longrightarrow>
                  offset (plane_info st ! p) < offset (plane_info st ! q))
              \<and> (\<forall>p < npln format.
                    0 \<le> offset (plane_info st ! p)
                    \<and> offset (plane_info st ! p) + fst (plane_sizes st ! p)
                        + snd (plane_sizes st ! p) \<le> alloc_size st)
              \<and> sum_list (map fst (plane_sizes st)) \<le> alloc_size st)"
proof -
  let ?S = "calc_prefix D w h t format has_cpu_usage has_hw_usage pstride0 pinfo0"
  define n where "n = npln format"
  have stn: "st = ?S n" by (simp add: st calc_allocation_size_prefix n_def)
  have length: "length (plane_sizes st) = n"
    by (simp add: stn calc_prefix_lengths)
  have off0: "offset (plane_info st ! 0) = 0" if "0 < length pinfo0"
    unfolding stn using that by (rule calc_prefix_offset_0)
  have main:
    "(\<forall>p q. p < q \<and> q < n \<longrightarrow>
          offset (plane_info st ! p) + fst (plane_sizes st ! p)
            + snd (plane_sizes st ! p) \<le> offset (plane_info st ! q))
      \<and> (\<forall>p q. p < q \<and> q < n
                \<and> 0 < fst (plane_sizes st ! p) + snd (plane_sizes st ! p) \<longrightarrow>
          offset (plane_info st ! p) < offset (plane_info st ! q))
      \<and> (\<forall>p < n.
            0 \<le> offset (plane_info st ! p)
            \<and> offset (plane_info st ! p) + fst (plane_sizes st ! p)
                + snd (plane_sizes st ! p) \<le> alloc_size st)
      \<and> sum_list (map fst (plane_sizes st)) \<le> alloc_size st"
    if al: "is_afrc t \<longrightarrow> 0 < u32 (rgba_luma_plane_alignment (afrc t))
                            \<and> 0 < u32 (chroma_plane_alignment (afrc t))"
      and sizes: "\<forall>p < n. 0 \<le> fst (plane_sizes st ! p) \<and> 0 \<le> snd (plane_sizes st ! p)
                   \<and> fst (plane_sizes st ! p) + snd (plane_sizes st ! p) < 2 ^ 31"
      and total: "alloc_size st < 2 ^ 32"
  proof -
    define A where "A k = alloc_size (?S k)" for k
    define Z where "Z k = plane_start t k (A k)" for k
    define B where "B k = fst (plane_sizes st ! k)" for k
    define c where "c k = fst (plane_sizes st ! k) + snd (plane_sizes st ! k)" for k
    define off where "off k = offset (plane_info st ! k)" for k
    have A0: "A 0 = 0" by (simp add: A_def calc_prefix_0 calc_init_def)
    have An: "A n = alloc_size st" by (simp add: A_def stn)
    have keep: "plane_sizes st ! k = plane_sizes (?S (Suc k)) ! k"
               "plane_info st ! k = plane_info (?S (Suc k)) ! k" if "k < n" for k
      using calc_prefix_persist [of "Suc k" n k D w h t format has_cpu_usage has_hw_usage
              pstride0 pinfo0] that
      by (simp_all add: stn)
    have step: "A (Suc k) = u64 (Z k + u64 (s32 (c k)))"
      and offk: "off k = (if k > 0 then u32 (Z k) else 0)" if "k < n" for k
    proof -
      from that len have "k < length pinfo0" by (simp add: n_def)
      from calc_prefix_step [OF this, of D w h t format has_cpu_usage has_hw_usage pstride0]
      show "A (Suc k) = u64 (Z k + u64 (s32 (c k)))"
        and "off k = (if k > 0 then u32 (Z k) else 0)"
        by (simp_all add: A_def Z_def c_def off_def keep [OF that])
    qed
    have start: "A k \<le> Z k \<and> Z k < A k + 2 ^ 32" if "0 \<le> A k" "A k \<le> 2 ^ 63" for k
      unfolding Z_def using that al by (rule plane_start_range)
    have ck: "0 \<le> c k \<and> c k < 2 ^ 31" if "k < n" for k
      using sizes that by (simp add: c_def)
    from small have n256: "n < 256" by (simp add: n_def)
    have seq: "(\<forall>k\<le>n. 0 \<le> A k \<and> A k \<le> int k * 2 ^ 33)
               \<and> (\<forall>k<n. A (Suc k) = Z k + c k \<and> A k \<le> Z k)"
      using A0 n256 step start ck by (intro layout_sequence) blast+
    then have exact: "A (Suc k) = Z k + c k \<and> A k \<le> Z k" if "k < n" for k
      using that by blast
    from seq have nonneg: "0 \<le> A k" if "k \<le> n" for k
      using that by blast
    have c0: "0 \<le> c k" if "k < n" for k using ck [OF that] by simp
    have mono: "A p \<le> A q" if "p \<le> q" "q \<le> n" for p q
      using seq c0 that by (intro layout_sequence_mono [where Z = Z and c = c and n = n]) blast+
    have zk: "0 \<le> Z k \<and> Z k < 2 ^ 32 \<and> Z k + c k \<le> alloc_size st" if "k < n" for k
    proof -
      from exact [OF that] have e: "A (Suc k) = Z k + c k" "A k \<le> Z k" by simp_all
      from mono [of "Suc k" n] that have "A (Suc k) \<le> A n" by simp
      with e c0 [OF that] nonneg [of k] that total An show ?thesis by simp
    qed
    have offz: "0 \<le> off k \<and> off k \<le> Z k \<and> (k > 0 \<longrightarrow> off k = Z k)" if "k < n" for k
      using offk [OF that] zk [OF that] by (cases "k = 0") (simp_all add: u32_id)
    have ordered: "off p + c p \<le> off q" if "p < q" "q < n" for p q
    proof -
      from that have pn: "p < n" by simp
      from exact [OF pn] offz [OF pn] have "off p + c p \<le> A (Suc p)" by simp
      also from mono [of "Suc p" q] that have "\<dots> \<le> A q" by simp
      also from exact [OF that(2)] have "\<dots> \<le> Z q" by simp
      also from offz [OF that(2)] that(1) have "Z q = off q" by simp
      finally show ?thesis .
    qed
    have strict: "off p < off q" if "p < q" "q < n" "0 < c p" for p q
      using ordered [OF that(1,2)] that(3) by simp
    have inside: "0 \<le> off p \<and> off p + c p \<le> alloc_size st" if "p < n" for p
      using offz [OF that] zk [OF that] by simp
    have bodies: "(\<Sum>k<m. B k) \<le> A m" if "m \<le> n" for m
      using that
    proof (induction m)
      case 0
      then show ?case by (simp add: A0)
    next
      case (Suc m)
      then have mn: "m < n" and ih: "(\<Sum>k<m. B k) \<le> A m" by simp_all
      from sizes mn have "B m \<le> c m" by (simp add: B_def c_def)
      with exact [OF mn] ih show ?case by simp
    qed
    have "sum_list (map fst (plane_sizes st)) = (\<Sum>k<n. B k)"
      by (simp add: sum_list_sum_nth length B_def atLeast0LessThan)
    with bodies [of n] An have sum: "sum_list (map fst (plane_sizes st)) \<le> alloc_size st"
      by simp
    from ordered strict inside sum show ?thesis
      by (simp add: off_def c_def add.assoc)
  qed
  from length off0 main show ?thesis
    unfolding n_def by blast
qed

lemma example_linear_nv12_eval:
  "example_linear_nv12 =
     \<lparr>pixel_stride = 640, alloc_size = 460800,
      plane_info =
        [\<lparr>offset = 0, byte_stride = 640, alloc_width = 640, alloc_height = 480\<rparr>,
         \<lparr>offset = 307200, byte_stride = 640, alloc_width = 320, alloc_height = 240\<rparr>,
         \<lparr>offset = 0, byte_stride = 0, alloc_width = 0, alloc_height = 0\<rparr>],
      plane_sizes = [(307200, 0), (153600, 0)], asserts_hold = True\<rparr>"
  unfolding example_linear_nv12_def
  by (simp add: struct_eval example_decls_def;
      simp add: arith_eval lcm_u32_def gcd_u32_def gcd_loop.simps;
      simp add: signed_divide_int_def)

theorem calc_allocation_size_layout_witness:
  "npln example_nv12 \<le> length example_plane_info \<and> npln example_nv12 < 256
   \<and> \<not> is_afrc ((alloc_type_zero example_decls)\<lparr>is_multi_plane := True\<rparr>)
   \<and> plane_sizes example_linear_nv12 = [(307200, 0), (153600, 0)]
   \<and> alloc_size example_linear_nv12 < 2 ^ 32
   \<and> offset (plane_info example_linear_nv12 ! 0) = 0
   \<and> offset (plane_info example_linear_nv12 ! 0) + 307200 + 0
        \<le> offset (plane_info example_linear_nv12 ! 1)
   \<and> offset (plane_info example_linear_nv12 ! 0) < offset (plane_info example_linear_nv12 ! 1)
   \<and> offset (plane_info example_linear_nv12 ! 1) + 153600 + 0
        \<le> alloc_size example_linear_nv12
   \<and> sum_list (map fst (plane_sizes example_linear_nv12)) \<le> alloc_size example_linear_nv12"
proof -
  let ?t = "(alloc_type_zero example_decls)\<lparr>is_multi_plane := True\<rparr>"
  have h1: "npln example_nv12 \<le> length example_plane_info"
    and h2: "npln example_nv12 < 256" and n: "npln example_nv12 = 2"
    by (simp_all add: example_nv12_def example_plane_info_def)
  have h3: "\<not> is_afrc ?t" by (simp add: is_afrc_def alloc_type_zero_def)
  have sizes: "plane_sizes example_linear_nv12 = [(307200, 0), (153600, 0)]"
    and total: "alloc_size example_linear_nv12 < 2 ^ 32"
    by (simp_all add: example_linear_nv12_eval)
  have h4: "\<forall>p < npln example_nv12.
              0 \<le> fst (plane_sizes example_linear_nv12 ! p)
              \<and> 0 \<le> snd (plane_sizes example_linear_nv12 ! p)
              \<and> fst (plane_sizes example_linear_nv12 ! p)
                  + snd (plane_sizes example_linear_nv12 ! p) < 2 ^ 31"
    by (simp add: n sizes less_Suc_eq numeral_2_eq_2)
  have pos: "0 < length example_plane_info" by (simp add: example_plane_info_def)
  note layout = calc_allocation_size_layout [OF example_linear_nv12_def h1 h2]
  from layout pos have r0: "offset (plane_info example_linear_nv12 ! 0) = 0" by blast
  from layout h3 h4 total have
    ord: "\<forall>p q. p < q \<and> q < npln example_nv12 \<longrightarrow>
            offset (plane_info example_linear_nv12 ! p)
              + fst (plane_sizes example_linear_nv12 ! p)
              + snd (plane_sizes example_linear_nv12 ! p)
            \<le> offset (plane_info example_linear_nv12 ! q)"
    and strict: "\<forall>p q. p < q \<and> q < npln example_nv12
              \<and> 0 < fst (plane_sizes example_linear_nv12 ! p)
                    + snd (plane_sizes example_linear_nv12 ! p) \<longrightarrow>
            offset (plane_info example_linear_nv12 ! p)
              < offset (plane_info example_linear_nv12 ! q)"
    and inside: "\<forall>p < npln example_nv12.
            0 \<le> offset (plane_info example_linear_nv12 ! p)
            \<and> offset (plane_info example_linear_nv12 ! p)
                + fst (plane_sizes example_linear_nv12 ! p)
                + snd (plane_sizes example_linear_nv12 ! p)
              \<le> alloc_size example_linear_nv12"
    and sum: "sum_list (map fst (plane_sizes example_linear_nv12))
                \<le> alloc_size example_linear_nv12"
    by blast+
  from ord [rule_format, of 0 1] have r1:
    "offset (plane_info example_linear_nv12 ! 0) + 307200 + 0
        \<le> offset (plane_info example_linear_nv12 ! 1)"
    by (simp add: n sizes)
  from strict [rule_format, of 0 1] have r2:
    "offset (plane_info example_linear_nv12 ! 0) < offset (plane_info example_linear_nv12 ! 1)"
    by (simp add: n sizes)
  from inside [rule_format, of 1] have r3:
    "offset (plane_info example_linear_nv12 ! 1) + 153600 + 0
        \<le> alloc_size example_linear_nv12"
    by (simp add: n sizes)
  from h1 h2 h3 sizes total r0 r1 r2 r3 sum show ?thesis by blast
qed

subsection \<open>Multi-layer buffers\<close>

lemma fold_invariant:
  "P s \<Longrightarrow> (\<And>x s. P s \<Longrightarrow> P (f x s)) \<Longrightarrow> P (fold f xs s)"
  by (induction xs arbitrary: s) simp_all

lemma calc_plane_alloc_size_range:
  "0 \<le> alloc_size (calc_plane D w h t f c hw p st)
   \<and> alloc_size (calc_plane D w h t f c hw p st) < 2 ^ 64"
  by (simp add: calc_plane_def Let_def split_beta u64_def)

lemma calc_allocation_size_range:
  "0 \<le> alloc_size (calc_allocation_size D w h t f c hw ps pi)
   \<and> alloc_size (calc_allocation_size D w h t f c hw ps pi) < 2 ^ 64"
  unfolding calc_allocation_size_def
  by (rule fold_invariant) (use calc_plane_alloc_size_range in simp_all)

lemma validate_format_layer_count:
  "validate_format D f t (d\<lparr>bd_layer_count := n\<rparr>) = validate_format D f t d"
  by (simp add: validate_format_def)

text \<open>The size of one layer: what \<^verbatim>\<open>calc_allocation_size\<close> leaves in \<^verbatim>\<open>descriptor->size\<close>.\<close>

lemma derive_size_single:
  "\<exists>single. 0 \<le> single \<and> single < 2 ^ 64
     \<and> (\<forall>n. bd_size (derive_size D (d\<lparr>bd_layer_count := n\<rparr>) af f t) = layer_size D af n single)
     \<and> bd_size (derive_size D d af f t) = layer_size D af (bd_layer_count d) single"
proof -
  let ?usage = "bd_producer_usage d OR bd_consumer_usage d"
  obtain aw ah where adj: "mali_gralloc_adjust_dimensions D af ?usage
                             (s32 (bd_width d)) (s32 (bd_height d)) = (aw, ah)"
    by (cases "mali_gralloc_adjust_dimensions D af ?usage (s32 (bd_width d)) (s32 (bd_height d))")
  define single where "single = alloc_size (calc_allocation_size D aw ah t f
      (flag ?usage (USAGE_SW_READ_MASK D OR USAGE_SW_WRITE_MASK D))
      (flag ?usage (NOT (USAGE_PRIVATE_MASK D OR USAGE_SW_READ_MASK D OR USAGE_SW_WRITE_MASK D)))
      (bd_pixel_stride d) (bd_plane_info d))"
  have "0 \<le> single" "single < 2 ^ 64"
    unfolding single_def using calc_allocation_size_range by blast+
  moreover have "bd_size (derive_size D (d\<lparr>bd_layer_count := n\<rparr>) af f t)
                   = layer_size D af n single" for n
    using adj by (simp add: derive_size_def single_def Let_def)
  moreover have "bd_size (derive_size D d af f t) = layer_size D af (bd_layer_count d) single"
    using adj by (simp add: derive_size_def single_def Let_def)
  ultimately show ?thesis by blast
qed

lemma derive_size_alloc_format: "bd_alloc_format (derive_size D d af f t) = af"
  by (simp add: derive_size_def Let_def split_beta)

lemma derive_layer_count:
  assumes "mali_gralloc_derive_format_and_size D d = Inr d'"
  shows "\<exists>af f t. d' = derive_size D d af f t
           \<and> mali_gralloc_derive_format_and_size D (d\<lparr>bd_layer_count := n\<rparr>)
               = Inr (derive_size D (d\<lparr>bd_layer_count := n\<rparr>) af f t)"
  using assms
  by (auto simp add: mali_gralloc_derive_format_and_size_def Let_def validate_format_layer_count
           split: if_splits sum.splits option.splits)


text \<open>
  Claim C7. For every request for which the entry point succeeds, with \<open>d1\<close> the result
  for the same request with one layer (so \<open>bd_size d1\<close> is the single-layer total
  size): for a layer count of at most 1 the size is the single-layer size unchanged;
  for a layer count above 1 it is, in \<^verbatim>\<open>size_t\<close> arithmetic, the single-layer size
  aligned with \<^verbatim>\<open>GRALLOC_ALIGN\<close> to 4096 if the format is block-compressed with tiled
  headers, to 128 if block-compressed without, and not aligned otherwise, times the
  layer count. Unless the single-layer size is within 4096 of \<open>2 ^ 64\<close> the alignment
  is rounding up to the next multiple, and where the product fits \<^verbatim>\<open>size_t\<close> the size
  is the product itself.
\<close>

theorem layer_count_replicates_aligned_size:
  assumes "mali_gralloc_derive_format_and_size D d = Inr d'"
  shows "\<exists>d1. mali_gralloc_derive_format_and_size D (d\<lparr>bd_layer_count := 1\<rparr>) = Inr d1
           \<and> bd_alloc_format d1 = bd_alloc_format d'
           \<and> 0 \<le> bd_size d1 \<and> bd_size d1 < 2 ^ 64
           \<and> (bd_layer_count d \<le> 1 \<longrightarrow> bd_size d' = bd_size d1)
           \<and> (bd_layer_count d > 1 \<longrightarrow>
                bd_size d' =
                  u64 ((if is_format_afbc D (bd_alloc_format d')
                        then if flag (bd_alloc_format d') (INTFMT_AFBC_TILED_HEADERS D)
                             then GRALLOC_ALIGN u64 (bd_size d1) 4096
                             else GRALLOC_ALIGN u64 (bd_size d1) 128
                        else bd_size d1) * bd_layer_count d))
           \<and> (bd_size d1 + 4096 \<le> 2 ^ 64 \<longrightarrow>
                GRALLOC_ALIGN u64 (bd_size d1) 4096 = round_up (bd_size d1) 4096
                \<and> GRALLOC_ALIGN u64 (bd_size d1) 128 = round_up (bd_size d1) 128)
           \<and> (bd_layer_count d > 1 \<and> bd_size d1 + 4096 \<le> 2 ^ 64
                \<and> round_up (bd_size d1) 4096 * bd_layer_count d < 2 ^ 64 \<longrightarrow>
                bd_size d' =
                  (if is_format_afbc D (bd_alloc_format d')
                   then if flag (bd_alloc_format d') (INTFMT_AFBC_TILED_HEADERS D)
                        then round_up (bd_size d1) 4096
                        else round_up (bd_size d1) 128
                   else bd_size d1) * bd_layer_count d)"
proof -
  from derive_layer_count [OF assms, of 1] obtain af f t where
    d': "d' = derive_size D d af f t"
    and one: "mali_gralloc_derive_format_and_size D (d\<lparr>bd_layer_count := 1\<rparr>)
               = Inr (derive_size D (d\<lparr>bd_layer_count := 1\<rparr>) af f t)"
    by blast
  define d1 where "d1 = derive_size D (d\<lparr>bd_layer_count := 1\<rparr>) af f t"
  from derive_size_single [of D d af f t] obtain single where
    range: "0 \<le> single" "single < 2 ^ 64"
    and s1: "bd_size d1 = layer_size D af 1 single"
    and sn: "bd_size d' = layer_size D af (bd_layer_count d) single"
    unfolding d1_def d' by blast
  have af: "bd_alloc_format d' = af" "bd_alloc_format d1 = af"
    unfolding d' d1_def by (simp_all add: derive_size_alloc_format)
  have single: "bd_size d1 = single"
    using s1 by (simp add: layer_size_def)
  have exact: "GRALLOC_ALIGN u64 single 4096 = round_up single 4096
               \<and> GRALLOC_ALIGN u64 single 128 = round_up single 128"
    if "single + 4096 \<le> 2 ^ 64"
    using that range by (simp add: GRALLOC_ALIGN_u64)
  have le128: "round_up single 128 \<le> round_up single 4096"
  proof -
    have "single \<le> round_up single 4096" "(4096::int) dvd round_up single 4096"
      using round_up_props [of 4096 single] by simp_all
    moreover from this(2) have "(128::int) dvd round_up single 4096"
      by (rule dvd_trans [rotated]) simp
    ultimately show ?thesis by (intro round_up_least) simp_all
  qed
  have nonneg: "0 \<le> round_up single 128" "single \<le> round_up single 4096"
    using round_up_props [of 128 single] round_up_props [of 4096 single] range by linarith+
  have prod: "bd_size d' =
                  (if is_format_afbc D af
                   then if flag af (INTFMT_AFBC_TILED_HEADERS D)
                        then round_up single 4096 else round_up single 128
                   else single) * bd_layer_count d"
    if lc: "bd_layer_count d > 1" and fit: "single + 4096 \<le> 2 ^ 64"
      and small: "round_up single 4096 * bd_layer_count d < 2 ^ 64"
  proof -
    let ?base = "if is_format_afbc D af
                   then if flag af (INTFMT_AFBC_TILED_HEADERS D)
                        then round_up single 4096 else round_up single 128
                   else single"
    have b: "0 \<le> ?base" "?base \<le> round_up single 4096"
      using range nonneg le128 by auto
    with lc have "0 \<le> ?base * bd_layer_count d"
      "?base * bd_layer_count d \<le> round_up single 4096 * bd_layer_count d"
      by (simp_all add: mult_right_mono)
    with small have "u64 (?base * bd_layer_count d) = ?base * bd_layer_count d"
      by (simp add: u64_def mod_pos_pos_trivial)
    with lc exact [OF fit] show ?thesis
      by (auto simp add: sn layer_size_def split: if_splits)
  qed
  have small_lc: "bd_size d' = single" if "bd_layer_count d \<le> 1"
    using that by (simp add: sn layer_size_def)
  have big_lc: "bd_size d' =
                  u64 ((if is_format_afbc D af
                        then if flag af (INTFMT_AFBC_TILED_HEADERS D)
                             then GRALLOC_ALIGN u64 single 4096
                             else GRALLOC_ALIGN u64 single 128
                        else single) * bd_layer_count d)"
    if "bd_layer_count d > 1"
    using that by (simp add: sn layer_size_def)
  from one range exact prod small_lc big_lc show ?thesis
    unfolding d1_def [symmetric] af single [symmetric]
    by (intro exI [where x = d1]) (simp add: af)
qed

theorem layer_count_replicates_aligned_size_witness:
  "\<exists>d' d1. mali_gralloc_derive_format_and_size example_decls
               (example_descriptor 100 50 0x900000001 0x100 3) = Inr d'
     \<and> mali_gralloc_derive_format_and_size example_decls
               ((example_descriptor 100 50 0x900000001 0x100 3)\<lparr>bd_layer_count := 1\<rparr>) = Inr d1
     \<and> bd_size d1 = 69632
     \<and> bd_size d' = round_up 69632 4096 * 3
     \<and> bd_size d' = 208896"
proof -
  let ?d = "example_descriptor 100 50 0x900000001 0x100 3"
  have ev: "mali_gralloc_derive_format_and_size example_decls ?d =
     Inr (?d\<lparr>bd_alloc_format := 0x900000001,
              bd_pixel_stride := 0,
              bd_plane_info :=
                [\<lparr>offset = 0, byte_stride = 512, alloc_width = 128, alloc_height = 128\<rparr>,
                 \<lparr>offset = 0, byte_stride = 0, alloc_width = 0, alloc_height = 0\<rparr>,
                 \<lparr>offset = 0, byte_stride = 0, alloc_width = 0, alloc_height = 0\<rparr>],
              bd_size := 208896\<rparr>)"
    by (simp add: get_alloc_type_eval derive_eval example_decls_def example_rgba_def;
        simp add: struct_eval; simp add: arith_eval; simp add: signed_divide_int_def)
  from layer_count_replicates_aligned_size [OF ev] obtain d1 where
    one: "mali_gralloc_derive_format_and_size example_decls (?d\<lparr>bd_layer_count := 1\<rparr>) = Inr d1"
    and sz: "bd_size d1 + 4096 \<le> 2 ^ 64 \<and> round_up (bd_size d1) 4096 * 3 < 2 ^ 64
             \<longrightarrow> 208896 = round_up (bd_size d1) 4096 * 3"
    by (auto simp add: example_descriptor_def example_decls_def flag_def)
  have ev1: "mali_gralloc_derive_format_and_size example_decls (?d\<lparr>bd_layer_count := 1\<rparr>) =
     Inr (?d\<lparr>bd_layer_count := 1, bd_alloc_format := 0x900000001,
              bd_pixel_stride := 0,
              bd_plane_info :=
                [\<lparr>offset = 0, byte_stride = 512, alloc_width = 128, alloc_height = 128\<rparr>,
                 \<lparr>offset = 0, byte_stride = 0, alloc_width = 0, alloc_height = 0\<rparr>,
                 \<lparr>offset = 0, byte_stride = 0, alloc_width = 0, alloc_height = 0\<rparr>],
              bd_size := 69632\<rparr>)"
    by (simp add: get_alloc_type_eval derive_eval example_decls_def example_rgba_def;
        simp add: struct_eval; simp add: arith_eval; simp add: signed_divide_int_def)
  with one have s1: "bd_size d1 = 69632" by auto
  with sz have "208896 = round_up 69632 4096 * 3"
    by (simp add: round_up_def)
  with ev one s1 show ?thesis by simp
qed

subsection \<open>Wire format code\<close>

lemma table_entries_no_bgr565:
  "(name, entry) \<in> set table_entries \<Longrightarrow> fourcc entry \<noteq> DRM_FORMAT_BGR565"
  by (auto simp add: table_entries_def)

lemma table_entries_not_invalid:
  "(name, entry) \<in> set table_entries \<Longrightarrow> fourcc entry \<noteq> DRM_FORMAT_INVALID"
  by (auto simp add: table_entries_def)

lemma table_SomeD:
  assumes "table D k = Some entry"
  shows "\<exists>name. (name, entry) \<in> set table_entries \<and> FORMAT_VALUE D name = k"
proof -
  from assms have "(k, entry) \<in> set (map (\<lambda>(name, entry). (FORMAT_VALUE D name, entry)) table_entries)"
    unfolding table_def by (rule map_of_SomeD)
  then show ?thesis by auto
qed

lemma table_rgb_565:
  "\<exists>entry. table D (FORMAT_VALUE D MALI_GRALLOC_FORMAT_INTERNAL_RGB_565) = Some entry"
proof -
  have "FORMAT_VALUE D MALI_GRALLOC_FORMAT_INTERNAL_RGB_565
          \<in> fst ` set (map (\<lambda>(name, entry). (FORMAT_VALUE D name, entry)) table_entries)"
    by (simp add: table_entries_def)
  then have "table D (FORMAT_VALUE D MALI_GRALLOC_FORMAT_INTERNAL_RGB_565) \<noteq> None"
    unfolding table_def by (simp only: map_of_eq_None_iff not_not)
  then show ?thesis by blast
qed

lemma table_inj:
  assumes "inj (FORMAT_VALUE D)"
  shows "table D (FORMAT_VALUE D name) = map_of table_entries name"
proof -
  have "map_of (map (\<lambda>(n, e). (f n, e)) xs) (f name) = map_of xs name"
    if "inj f" for f :: "format_name \<Rightarrow> 64 word" and xs :: "(format_name \<times> table_entry) list"
    using that by (induction xs) (auto simp add: inj_eq)
  from this [OF assms] show ?thesis by (simp add: table_def)
qed

text \<open>
  Claim C8. The wire format code is looked up from the internal format id (the key
  \<^verbatim>\<open>get_internal_format_from_gralloc_format\<close> extracts): an id that is not in the
  table yields \<^verbatim>\<open>DRM_FORMAT_INVALID\<close>; for every id other than that of RGB 565 two
  handles with the same id get the same code, whatever their encoding; for the id of
  RGB 565 the code is \<^verbatim>\<open>DRM_FORMAT_BGR565\<close> under block-compression and a different,
  valid code without; and where the header gives distinct constants distinct values,
  the code of a listed constant other than RGB 565 is the one written next to it in
  the table. (One-to-one is read as: one code for each id. \<^verbatim>\<open>DRM_FORMAT_P010\<close> is
  listed for two ids.)
\<close>

theorem drm_fourcc_lookup:
  "(table D (get_internal_format_from_gralloc_format D (alloc_format hnd)) = None \<longrightarrow>
       drm_fourcc_from_handle D hnd = DRM_FORMAT_INVALID)
   \<and> (get_internal_format_from_gralloc_format D (alloc_format hnd)
         = get_internal_format_from_gralloc_format D (alloc_format hnd')
       \<and> get_internal_format_from_gralloc_format D (alloc_format hnd)
            \<noteq> FORMAT_VALUE D MALI_GRALLOC_FORMAT_INTERNAL_RGB_565 \<longrightarrow>
       drm_fourcc_from_handle D hnd = drm_fourcc_from_handle D hnd')
   \<and> (get_internal_format_from_gralloc_format D (alloc_format hnd)
         = FORMAT_VALUE D MALI_GRALLOC_FORMAT_INTERNAL_RGB_565
       \<and> get_internal_format_from_gralloc_format D (alloc_format hnd')
         = FORMAT_VALUE D MALI_GRALLOC_FORMAT_INTERNAL_RGB_565
       \<and> is_format_afbc D (alloc_format hnd) \<and> \<not> is_format_afbc D (alloc_format hnd') \<longrightarrow>
       drm_fourcc_from_handle D hnd = DRM_FORMAT_BGR565
       \<and> drm_fourcc_from_handle D hnd' \<noteq> DRM_FORMAT_BGR565
       \<and> drm_fourcc_from_handle D hnd' \<noteq> DRM_FORMAT_INVALID)
   \<and> (inj (FORMAT_VALUE D)
       \<and> get_internal_format_from_gralloc_format D (alloc_format hnd) = FORMAT_VALUE D name
       \<and> name \<noteq> MALI_GRALLOC_FORMAT_INTERNAL_RGB_565 \<longrightarrow>
       drm_fourcc_from_handle D hnd
         = (case map_of table_entries name of None \<Rightarrow> DRM_FORMAT_INVALID
            | Some entry \<Rightarrow> fourcc entry))"
proof -
  have invalid: "drm_fourcc_from_handle D hnd = DRM_FORMAT_INVALID"
    if "table D (get_internal_format_from_gralloc_format D (alloc_format hnd)) = None"
    using that by (simp add: drm_fourcc_from_handle_def)
  have indep: "drm_fourcc_from_handle D hnd = drm_fourcc_from_handle D hnd'"
    if "get_internal_format_from_gralloc_format D (alloc_format hnd)
         = get_internal_format_from_gralloc_format D (alloc_format hnd')"
       "get_internal_format_from_gralloc_format D (alloc_format hnd)
            \<noteq> FORMAT_VALUE D MALI_GRALLOC_FORMAT_INTERNAL_RGB_565"
    using that by (simp add: drm_fourcc_from_handle_def Let_def split: option.splits)
  have special: "drm_fourcc_from_handle D hnd = DRM_FORMAT_BGR565
       \<and> drm_fourcc_from_handle D hnd' \<noteq> DRM_FORMAT_BGR565
       \<and> drm_fourcc_from_handle D hnd' \<noteq> DRM_FORMAT_INVALID"
    if k: "get_internal_format_from_gralloc_format D (alloc_format hnd)
         = FORMAT_VALUE D MALI_GRALLOC_FORMAT_INTERNAL_RGB_565"
       "get_internal_format_from_gralloc_format D (alloc_format hnd')
         = FORMAT_VALUE D MALI_GRALLOC_FORMAT_INTERNAL_RGB_565"
      and a: "is_format_afbc D (alloc_format hnd)" "\<not> is_format_afbc D (alloc_format hnd')"
  proof -
    from table_rgb_565 obtain entry where
      e: "table D (FORMAT_VALUE D MALI_GRALLOC_FORMAT_INTERNAL_RGB_565) = Some entry" ..
    from table_SomeD [OF e] obtain name where "(name, entry) \<in> set table_entries" by blast
    then have "fourcc entry \<noteq> DRM_FORMAT_BGR565" "fourcc entry \<noteq> DRM_FORMAT_INVALID"
      by (rule table_entries_no_bgr565, rule table_entries_not_invalid)
    with k a e show ?thesis by (simp add: drm_fourcc_from_handle_def)
  qed
  have direct: "drm_fourcc_from_handle D hnd
         = (case map_of table_entries name of None \<Rightarrow> DRM_FORMAT_INVALID
            | Some entry \<Rightarrow> fourcc entry)"
    if "inj (FORMAT_VALUE D)"
       "get_internal_format_from_gralloc_format D (alloc_format hnd) = FORMAT_VALUE D name"
       "name \<noteq> MALI_GRALLOC_FORMAT_INTERNAL_RGB_565"
    using that table_inj [OF that(1), of name]
    by (simp add: drm_fourcc_from_handle_def inj_eq split: option.splits)
  from invalid indep special direct show ?thesis by blast
qed


lemma example_format_value_inj: "inj example_format_value"
proof (rule injI)
  fix x y
  assume "example_format_value x = example_format_value y"
  then show "x = y"
    by (cases x; cases y; simp)
qed

theorem drm_fourcc_lookup_witness:
  "table example_decls
     (get_internal_format_from_gralloc_format example_decls (alloc_format \<lparr>alloc_format = 0x999\<rparr>))
     = None
   \<and> drm_fourcc_from_handle example_decls \<lparr>alloc_format = 0x999\<rparr> = DRM_FORMAT_INVALID
   \<and> drm_fourcc_from_handle example_decls \<lparr>alloc_format = 0x100000100\<rparr>
       = drm_fourcc_from_handle example_decls \<lparr>alloc_format = 0x100\<rparr>
   \<and> is_format_afbc example_decls (alloc_format \<lparr>alloc_format = 0x100000004\<rparr>)
   \<and> \<not> is_format_afbc example_decls (alloc_format \<lparr>alloc_format = 0x4\<rparr>)
   \<and> drm_fourcc_from_handle example_decls \<lparr>alloc_format = 0x100000004\<rparr> = DRM_FORMAT_BGR565
   \<and> drm_fourcc_from_handle example_decls \<lparr>alloc_format = 0x4\<rparr> \<noteq> DRM_FORMAT_BGR565
   \<and> inj (FORMAT_VALUE example_decls)
   \<and> drm_fourcc_from_handle example_decls \<lparr>alloc_format = 0x100000100\<rparr> = DRM_FORMAT_NV12"
proof -
  have fv: "FORMAT_VALUE example_decls = example_format_value"
    and gi: "get_internal_format_from_gralloc_format example_decls = (\<lambda>x. x AND 0xFFFFFFFF)"
    by (simp_all add: example_decls_def)
  have none: "table example_decls
     (get_internal_format_from_gralloc_format example_decls (alloc_format \<lparr>alloc_format = 0x999\<rparr>))
     = None"
    by (simp add: table_def table_entries_def fv gi)
  have same: "get_internal_format_from_gralloc_format example_decls
                (alloc_format \<lparr>alloc_format = 0x100000100\<rparr>)
              = get_internal_format_from_gralloc_format example_decls
                (alloc_format \<lparr>alloc_format = 0x100\<rparr>)
              \<and> get_internal_format_from_gralloc_format example_decls
                (alloc_format \<lparr>alloc_format = 0x100000100\<rparr>)
                \<noteq> FORMAT_VALUE example_decls MALI_GRALLOC_FORMAT_INTERNAL_RGB_565"
    by (simp add: fv gi)
  have rgb: "get_internal_format_from_gralloc_format example_decls
                (alloc_format \<lparr>alloc_format = 0x100000004\<rparr>)
              = FORMAT_VALUE example_decls MALI_GRALLOC_FORMAT_INTERNAL_RGB_565
             \<and> get_internal_format_from_gralloc_format example_decls
                (alloc_format \<lparr>alloc_format = 0x4\<rparr>)
              = FORMAT_VALUE example_decls MALI_GRALLOC_FORMAT_INTERNAL_RGB_565
             \<and> is_format_afbc example_decls (alloc_format \<lparr>alloc_format = 0x100000004\<rparr>)
             \<and> \<not> is_format_afbc example_decls (alloc_format \<lparr>alloc_format = 0x4\<rparr>)"
    by (simp add: fv gi) (simp add: example_decls_def)
  have inj: "inj (FORMAT_VALUE example_decls)"
    by (simp add: fv example_format_value_inj)
  have nv12: "get_internal_format_from_gralloc_format example_decls
                (alloc_format \<lparr>alloc_format = 0x100000100\<rparr>)
              = FORMAT_VALUE example_decls MALI_GRALLOC_FORMAT_INTERNAL_NV12
              \<and> MALI_GRALLOC_FORMAT_INTERNAL_NV12 \<noteq> MALI_GRALLOC_FORMAT_INTERNAL_RGB_565"
    by (simp add: fv gi)
  have entry: "map_of table_entries MALI_GRALLOC_FORMAT_INTERNAL_NV12
                 = Some \<lparr>fourcc = DRM_FORMAT_NV12, colormodel = yuv\<rparr>"
    by (simp add: table_entries_def)
  note a = drm_fourcc_lookup [of example_decls "\<lparr>alloc_format = 0x999\<rparr>"]
  note b = drm_fourcc_lookup [of example_decls "\<lparr>alloc_format = 0x100000100\<rparr>"
             "\<lparr>alloc_format = 0x100\<rparr>" MALI_GRALLOC_FORMAT_INTERNAL_NV12]
  note c = drm_fourcc_lookup [of example_decls "\<lparr>alloc_format = 0x100000004\<rparr>"
             "\<lparr>alloc_format = 0x4\<rparr>"]
  from a none have r1: "drm_fourcc_from_handle example_decls \<lparr>alloc_format = 0x999\<rparr>
                          = DRM_FORMAT_INVALID" by blast
  from b same have r2: "drm_fourcc_from_handle example_decls \<lparr>alloc_format = 0x100000100\<rparr>
       = drm_fourcc_from_handle example_decls \<lparr>alloc_format = 0x100\<rparr>" by blast
  from c rgb have r3: "drm_fourcc_from_handle example_decls \<lparr>alloc_format = 0x100000004\<rparr>
                          = DRM_FORMAT_BGR565
       \<and> drm_fourcc_from_handle example_decls \<lparr>alloc_format = 0x4\<rparr> \<noteq> DRM_FORMAT_BGR565"
    by blast
  from b inj nv12 have "drm_fourcc_from_handle example_decls \<lparr>alloc_format = 0x100000100\<rparr>
         = (case map_of table_entries MALI_GRALLOC_FORMAT_INTERNAL_NV12 of
              None \<Rightarrow> DRM_FORMAT_INVALID | Some entry \<Rightarrow> fourcc entry)"
    by blast
  with entry have r4: "drm_fourcc_from_handle example_decls \<lparr>alloc_format = 0x100000100\<rparr>
                         = DRM_FORMAT_NV12" by simp
  from none r1 r2 rgb r3 inj r4 show ?thesis by blast
qed

end
